theory Spec2Isabelle
  imports Complex_Main "HOL-Library.Multiset"
begin

section \<open>Conventions of the embedding\<close>

text \<open>
  The sources are React components written in TypeScript. A component's \<open>useState\<close> cells
  become the fields of a record, an event handler becomes a function from the state before
  the event to the state after it, and every HTTP call the handler makes is appended to a
  request log kept in the state, so that the order of the calls can be read off.

  JavaScript numbers that hold database ids are \<open>nat\<close>, quantities are \<open>int\<close>, amounts of
  money are \<open>rat\<close> (exact arithmetic; rounding of doubles is not modelled). A value that may
  be \<open>null\<close> or \<open>undefined\<close> is an \<open>option\<close>. A rejected promise is the left injection of
  a sum, carrying \<open>error.response?.data?.message\<close>.
\<close>

datatype api_error = ApiError "string option"

text \<open>\<open>error.response?.data?.message || fallback\<close>: an absent or empty message is falsy.\<close>

fun errorMessage :: "api_error \<Rightarrow> string \<Rightarrow> string" where
  "errorMessage (ApiError None) fallback = fallback"
| "errorMessage (ApiError (Some m)) fallback = (if m = [] then fallback else m)"

text \<open>
  Toasts carry their text (accents dropped). The three success texts that embed a number
  are constructors of their own: "Mesa #n abierta", "Mesa #n pagada exitosamente" and
  "n producto(s) agregado(s)".
\<close>

datatype toast =
    ToastSuccess string
  | ToastError string
  | ToastTableOpened int
  | ToastTablePaid int
  | ToastItemsAdded nat

section \<open>Catalog types (the shared type declarations)\<close>

record inventory =
  inv_quantity :: int
  inv_minStock :: int
  inv_maxStock :: int

record product =
  prod_id :: nat
  prod_code :: string
  prod_name :: string
  prod_salePrice :: rat
  prod_isActive :: bool
  prod_inventory :: "inventory option"

section \<open>TablesPage.tsx: the draft list of the add-items modal\<close>

text \<open>\<open>itemsToAdd: { product: Product; quantity: number }[]\<close>, initially \<open>[]\<close>.\<close>

record draft_item =
  di_product :: product
  di_quantity :: int

definition di_id :: "draft_item \<Rightarrow> nat" where
  "di_id i = prod_id (di_product i)"

definition addProductToList :: "product \<Rightarrow> draft_item list \<Rightarrow> draft_item list" where
  "addProductToList p prev =
     (case List.find (\<lambda>i. di_id i = prod_id p) prev of
        Some existing \<Rightarrow>
          map (\<lambda>i. if di_id i = prod_id p then i\<lparr>di_quantity := di_quantity i + 1\<rparr> else i) prev
      | None \<Rightarrow> prev @ [\<lparr>di_product = p, di_quantity = 1\<rparr>])"

definition updateItemQuantity :: "nat \<Rightarrow> int \<Rightarrow> draft_item list \<Rightarrow> draft_item list" where
  "updateItemQuantity productId delta prev =
     filter (\<lambda>i. di_quantity i > 0)
       (map (\<lambda>i. if di_id i = productId
                  then (let newQty = di_quantity i + delta
                        in if newQty > 0 then i\<lparr>di_quantity := newQty\<rparr> else i)
                  else i) prev)"

definition removeItemFromList :: "nat \<Rightarrow> draft_item list \<Rightarrow> draft_item list" where
  "removeItemFromList productId prev = filter (\<lambda>i. di_id i \<noteq> productId) prev"

text \<open>The invariant of the draft list: quantities at least 1, one entry per product id.\<close>

definition draft_ok :: "draft_item list \<Rightarrow> bool" where
  "draft_ok xs = (list_all (\<lambda>i. 1 \<le> di_quantity i) xs \<and> distinct (map di_id xs))"

text \<open>The quantity the list holds for a product id (0 when it has no entry).\<close>

definition draftQty :: "nat \<Rightarrow> draft_item list \<Rightarrow> int" where
  "draftQty productId xs =
     (case List.find (\<lambda>i. di_id i = productId) xs of None \<Rightarrow> 0 | Some i \<Rightarrow> di_quantity i)"

subsection \<open>Facts about the draft list\<close>

lemma di_id_update [simp]: "di_id (i\<lparr>di_quantity := q\<rparr>) = di_id i"
  by (simp add: di_id_def)

lemma find_None_ids: "List.find (\<lambda>i. di_id i = k) xs = None \<longleftrightarrow> k \<notin> set (map di_id xs)"
  by (induction xs) auto

lemma add_ids_present:
  "k \<in> set (map di_id xs) \<Longrightarrow>
   map di_id (addProductToList p xs) = map di_id xs" if "k = prod_id p"
proof -
  assume "k \<in> set (map di_id xs)"
  with that have "List.find (\<lambda>i. di_id i = prod_id p) xs \<noteq> None"
    by (simp add: find_None_ids)
  then obtain e where "List.find (\<lambda>i. di_id i = prod_id p) xs = Some e"
    by blast
  then show ?thesis
    by (simp add: addProductToList_def comp_def)
qed

lemma add_ids_absent:
  "prod_id p \<notin> set (map di_id xs) \<Longrightarrow>
   map di_id (addProductToList p xs) = map di_id xs @ [prod_id p]"
proof -
  assume "prod_id p \<notin> set (map di_id xs)"
  then have "List.find (\<lambda>i. di_id i = prod_id p) xs = None"
    by (simp add: find_None_ids)
  then show ?thesis
    by (simp add: addProductToList_def di_id_def)
qed

lemma add_quantities:
  "list_all (\<lambda>i. 1 \<le> di_quantity i) xs \<Longrightarrow>
   list_all (\<lambda>i. 1 \<le> di_quantity i) (addProductToList p xs)"
  by (auto simp: addProductToList_def list_all_iff split: option.splits)

lemma add_draft_ok: "draft_ok xs \<Longrightarrow> draft_ok (addProductToList p xs)"
proof (cases "prod_id p \<in> set (map di_id xs)")
  case True
  assume "draft_ok xs"
  with True show ?thesis
    using add_ids_present [of "prod_id p" p xs] add_quantities [of xs p]
    by (simp add: draft_ok_def)
next
  case False
  assume "draft_ok xs"
  with False show ?thesis
    using add_ids_absent [of p xs] add_quantities [of xs p]
    by (simp add: draft_ok_def)
qed

lemma draftQty_add_present:
  "distinct (map di_id xs) \<Longrightarrow> prod_id p \<in> set (map di_id xs) \<Longrightarrow>
   draftQty (prod_id p) (addProductToList p xs) = draftQty (prod_id p) xs + 1"
proof (induction xs)
  case Nil
  then show ?case by simp
next
  case (Cons x xs)
  show ?case
  proof (cases "di_id x = prod_id p")
    case True
    then show ?thesis
      by (simp add: draftQty_def addProductToList_def)
  next
    case False
    with Cons.prems have mem: "prod_id p \<in> set (map di_id xs)" and d: "distinct (map di_id xs)"
      by auto
    then have "List.find (\<lambda>i. di_id i = prod_id p) xs \<noteq> None"
      by (simp add: find_None_ids)
    then obtain e where e: "List.find (\<lambda>i. di_id i = prod_id p) xs = Some e"
      by blast
    from Cons.IH [OF d mem] e False show ?thesis
      by (simp add: draftQty_def addProductToList_def)
  qed
qed

lemma update_step_positive:
  "list_all (\<lambda>i. 1 \<le> di_quantity i) xs \<Longrightarrow>
   updateItemQuantity k d xs =
     map (\<lambda>i. if di_id i = k
               then (let newQty = di_quantity i + d
                     in if newQty > 0 then i\<lparr>di_quantity := newQty\<rparr> else i)
               else i) xs"
  unfolding updateItemQuantity_def
  by (rule filter_True) (auto simp: list_all_iff Let_def)

lemma update_ids:
  "list_all (\<lambda>i. 1 \<le> di_quantity i) xs \<Longrightarrow> map di_id (updateItemQuantity k d xs) = map di_id xs"
  by (simp add: update_step_positive comp_def Let_def)

lemma update_quantities: "list_all (\<lambda>i. 1 \<le> di_quantity i) (updateItemQuantity k d xs)"
  by (auto simp: updateItemQuantity_def list_all_iff Let_def split: if_splits)

lemma update_draft_ok: "draft_ok xs \<Longrightarrow> draft_ok (updateItemQuantity k d xs)"
  by (simp add: draft_ok_def update_ids update_quantities)

lemma remove_draft_ok: "draft_ok xs \<Longrightarrow> draft_ok (removeItemFromList k xs)"
  by (auto simp: draft_ok_def removeItemFromList_def list_all_iff distinct_map_filter)

lemma decrement_at_one:
  "list_all (\<lambda>i. 1 \<le> di_quantity i) xs \<Longrightarrow> draftQty k xs = 1 \<Longrightarrow> distinct (map di_id xs) \<Longrightarrow>
   updateItemQuantity k (- 1) xs = xs"
proof -
  assume pos: "list_all (\<lambda>i. 1 \<le> di_quantity i) xs"
    and q: "draftQty k xs = 1" and d: "distinct (map di_id xs)"
  have "\<forall>i \<in> set xs. di_id i = k \<longrightarrow> di_quantity i = 1"
    using q d
  proof (induction xs)
    case Nil
    then show ?case by simp
  next
    case (Cons x xs)
    show ?case
    proof (cases "di_id x = k")
      case True
      with Cons.prems have "di_quantity x = 1" and "\<forall>i \<in> set xs. di_id i \<noteq> k"
        by (auto simp: draftQty_def image_iff)
      with True show ?thesis
        by simp
    next
      case False
      with Cons.prems Cons.IH show ?thesis
        by (auto simp: draftQty_def)
    qed
  qed
  then have "map (\<lambda>i. if di_id i = k
               then (let newQty = di_quantity i + (- 1)
                     in if newQty > 0 then i\<lparr>di_quantity := newQty\<rparr> else i)
               else i) xs = xs"
    by (intro map_idI) (auto simp: Let_def)
  with pos show ?thesis
    by (simp add: update_step_positive)
qed

text \<open>
  C10. The draft list of the add-items modal keeps every quantity at least 1 and at most one
  entry per product id under all three of its operations. Adding a product that already has
  an entry keeps the entries and raises that entry's quantity by one; decrementing an entry
  whose quantity is 1 changes nothing; changing a quantity never removes or adds an entry.
  The empty list, to which the page resets the draft when the modal opens and after the
  items have been sent, satisfies the invariant.
\<close>

theorem draft_list_invariant:
  assumes "draft_ok xs"
  shows "draft_ok (addProductToList p xs) \<and>
         draft_ok (updateItemQuantity k d xs) \<and>
         draft_ok (removeItemFromList k xs) \<and>
         (prod_id p \<in> set (map di_id xs) \<longrightarrow>
            map di_id (addProductToList p xs) = map di_id xs \<and>
            draftQty (prod_id p) (addProductToList p xs) = draftQty (prod_id p) xs + 1) \<and>
         (draftQty k xs = 1 \<longrightarrow> updateItemQuantity k (- 1) xs = xs) \<and>
         map di_id (updateItemQuantity k d xs) = map di_id xs \<and>
         draft_ok []"
proof -
  from assms have pos: "list_all (\<lambda>i. 1 \<le> di_quantity i) xs" and d: "distinct (map di_id xs)"
    by (simp_all add: draft_ok_def)
  have "draft_ok (addProductToList p xs)"
    using assms by (rule add_draft_ok)
  moreover have "draft_ok (updateItemQuantity k d xs)"
    using assms by (rule update_draft_ok)
  moreover have "draft_ok (removeItemFromList k xs)"
    using assms by (rule remove_draft_ok)
  moreover have "prod_id p \<in> set (map di_id xs) \<longrightarrow>
            map di_id (addProductToList p xs) = map di_id xs \<and>
            draftQty (prod_id p) (addProductToList p xs) = draftQty (prod_id p) xs + 1"
    using d add_ids_present [of "prod_id p" p xs] draftQty_add_present [of xs p] by blast
  moreover have "draftQty k xs = 1 \<longrightarrow> updateItemQuantity k (- 1) xs = xs"
    using pos d decrement_at_one [of xs k] by blast
  moreover have "map di_id (updateItemQuantity k d xs) = map di_id xs"
    using pos by (rule update_ids)
  moreover have "draft_ok []"
    by (simp add: draft_ok_def)
  ultimately show ?thesis
    by blast
qed

text \<open>
  A draft with one coffee (id 7): adding coffee again gives quantity 2 in the same single
  entry, and the minus button on the single coffee leaves the list as it is.
\<close>

definition coffee :: product where
  "coffee = \<lparr>prod_id = 7, prod_code = ''CAF'', prod_name = ''Cafe'', prod_salePrice = 4000,
             prod_isActive = True,
             prod_inventory = Some \<lparr>inv_quantity = 3, inv_minStock = 1, inv_maxStock = 50\<rparr>\<rparr>"

definition one_coffee :: "draft_item list" where
  "one_coffee = [\<lparr>di_product = coffee, di_quantity = 1\<rparr>]"

theorem draft_list_invariant_witness:
  "draft_ok one_coffee \<and>
   addProductToList coffee one_coffee = [\<lparr>di_product = coffee, di_quantity = 2\<rparr>] \<and>
   draft_ok (addProductToList coffee one_coffee) \<and>
   draftQty 7 one_coffee = 1 \<and>
   updateItemQuantity 7 (- 1) one_coffee = one_coffee \<and>
   draft_ok (removeItemFromList 7 one_coffee)"
proof -
  have ok: "draft_ok one_coffee"
    by (simp add: draft_ok_def one_coffee_def)
  have q: "draftQty 7 one_coffee = 1"
    by (simp add: draftQty_def one_coffee_def di_id_def coffee_def)
  have a: "addProductToList coffee one_coffee = [\<lparr>di_product = coffee, di_quantity = 2\<rparr>]"
    by (simp add: addProductToList_def one_coffee_def di_id_def)
  from draft_list_invariant [OF ok, of coffee 7 "- 1"] ok q a show ?thesis
    by simp
qed

section \<open>InvoicesPage.tsx: voiding and the two tabs\<close>

datatype invoice_status = COMPLETADA | ANULADA | PENDIENTE

record invoice =
  inv_id :: nat
  inv_invoiceNumber :: string
  inv_customerId :: "nat option"
  inv_total :: rat
  inv_paymentMethod :: string
  inv_status :: invoice_status

datatype invoice_tab = TabActive | TabVoided

text \<open>
  The reason typed into the void modal is a JavaScript string: a list of UTF-16 code units.
  \<open>units\<close> gives the code units of an ASCII text.
\<close>

type_synonym code_units = "nat list"

definition units :: "string \<Rightarrow> code_units" where
  "units s = map of_char s"

datatype invoice_request = GetAllInvoices | VoidInvoice nat code_units

record invoices_page =
  ip_invoices :: "invoice list"
  ip_loading :: bool
  ip_selectedInvoice :: "invoice option"
  ip_showVoidModal :: bool
  ip_voidReason :: code_units
  ip_processing :: bool
  ip_activeTab :: invoice_tab
  ip_toasts :: "toast list"
  ip_requests :: "invoice_request list"

text \<open>
  \<open>String.prototype.trim\<close> removes the code units of ECMAScript's WhiteSpace and
  LineTerminator at both ends: tab, line feed, vertical tab, form feed, carriage return,
  space, no-break space, the Unicode space separators, line and paragraph separator, and
  the byte order mark.
\<close>

definition isWhiteSpace :: "nat \<Rightarrow> bool" where
  "isWhiteSpace u =
     (u \<in> {0x09, 0x0A, 0x0B, 0x0C, 0x0D, 0x20, 0xA0, 0x1680, 0x2028, 0x2029, 0x202F, 0x205F,
            0x3000, 0xFEFF} \<or> (0x2000 \<le> u \<and> u \<le> 0x200A))"

definition trim :: "code_units \<Rightarrow> code_units" where
  "trim s = rev (dropWhile isWhiteSpace (rev (dropWhile isWhiteSpace s)))"

text \<open>
  \<open>fetchInvoices\<close> up to its first \<open>await\<close>: the loading flag is raised and the list is
  requested. \<open>fetchInvoicesDone\<close> is its continuation on the answer.
\<close>

definition fetchInvoices :: "invoices_page \<Rightarrow> invoices_page" where
  "fetchInvoices st = st\<lparr>ip_loading := True, ip_requests := ip_requests st @ [GetAllInvoices]\<rparr>"

definition fetchInvoicesDone :: "api_error + invoice list \<Rightarrow> invoices_page \<Rightarrow> invoices_page" where
  "fetchInvoicesDone res st =
     (case res of
        Inr content \<Rightarrow> st\<lparr>ip_invoices := content, ip_loading := False\<rparr>
      | Inl e \<Rightarrow> st\<lparr>ip_toasts := ip_toasts st @ [ToastError ''Error al cargar facturas''],
                     ip_loading := False\<rparr>)"

text \<open>
  \<open>handleVoid\<close>; \<open>voidInvoice\<close> is the server's answer to
  \<open>invoiceService.voidInvoice(id, { reason })\<close>. The reason is sent as typed, not trimmed.
\<close>

definition handleVoid :: "(nat \<Rightarrow> code_units \<Rightarrow> api_error + unit) \<Rightarrow> invoices_page \<Rightarrow> invoices_page" where
  "handleVoid voidInvoice st =
     (case ip_selectedInvoice st of
        None \<Rightarrow> st
      | Some selected \<Rightarrow>
          if trim (ip_voidReason st) = [] then st
          else
            (let st1 = st\<lparr>ip_processing := True,
                           ip_requests := ip_requests st @ [VoidInvoice (inv_id selected) (ip_voidReason st)]\<rparr>
             in case voidInvoice (inv_id selected) (ip_voidReason st) of
                  Inr u \<Rightarrow>
                    (fetchInvoices
                       (st1\<lparr>ip_toasts := ip_toasts st1 @ [ToastSuccess ''Factura anulada''],
                            ip_showVoidModal := False\<rparr>))\<lparr>ip_processing := False\<rparr>
                | Inl e \<Rightarrow>
                    st1\<lparr>ip_toasts := ip_toasts st1 @ [ToastError (errorMessage e ''Error al anular factura'')],
                        ip_processing := False\<rparr>))"

text \<open>The confirm button of the void modal: \<open>disabled={!voidReason.trim() || processing}\<close>.\<close>

definition voidButtonDisabled :: "invoices_page \<Rightarrow> bool" where
  "voidButtonDisabled st = (trim (ip_voidReason st) = [] \<or> ip_processing st)"

definition voidButtonClick :: "(nat \<Rightarrow> code_units \<Rightarrow> api_error + unit) \<Rightarrow> invoices_page \<Rightarrow> invoices_page" where
  "voidButtonClick voidInvoice st = (if voidButtonDisabled st then st else handleVoid voidInvoice st)"

text \<open>The two tabs are computed from the one fetched list on every render.\<close>

definition activeInvoices :: "invoices_page \<Rightarrow> invoice list" where
  "activeInvoices st = filter (\<lambda>v. inv_status v \<noteq> ANULADA) (ip_invoices st)"

definition voidedInvoices :: "invoices_page \<Rightarrow> invoice list" where
  "voidedInvoices st = filter (\<lambda>v. inv_status v = ANULADA) (ip_invoices st)"

definition currentInvoices :: "invoices_page \<Rightarrow> invoice list" where
  "currentInvoices st = (if ip_activeTab st = TabActive then activeInvoices st else voidedInvoices st)"

subsection \<open>Facts about voiding\<close>

lemma trim_blank: "list_all isWhiteSpace s \<Longrightarrow> trim s = []"
proof -
  assume "list_all isWhiteSpace s"
  then have "dropWhile isWhiteSpace s = []"
    by (simp add: list_all_iff)
  then show ?thesis
    unfolding trim_def by (simp only: rev.simps dropWhile.simps)
qed

lemma trim_empty_iff: "trim s = [] \<longleftrightarrow> list_all isWhiteSpace s"
proof
  assume "trim s = []"
  then have "dropWhile isWhiteSpace (rev (dropWhile isWhiteSpace s)) = []"
    by (simp add: trim_def)
  then have "\<forall>c \<in> set (dropWhile isWhiteSpace s). isWhiteSpace c"
    by simp
  moreover have "dropWhile isWhiteSpace s = [] \<or> \<not> isWhiteSpace (hd (dropWhile isWhiteSpace s))"
    using hd_dropWhile [of isWhiteSpace s] by blast
  ultimately have "dropWhile isWhiteSpace s = []"
    by (cases "dropWhile isWhiteSpace s") auto
  then show "list_all isWhiteSpace s"
    by (simp add: list_all_iff)
next
  assume "list_all isWhiteSpace s"
  then show "trim s = []"
    by (rule trim_blank)
qed

lemma handleVoid_blank: "trim (ip_voidReason st) = [] \<Longrightarrow> handleVoid srv st = st"
  by (simp add: handleVoid_def split: option.splits)

lemma handleVoid_sends:
  "ip_selectedInvoice st = Some selected \<Longrightarrow> trim (ip_voidReason st) \<noteq> [] \<Longrightarrow>
   take (Suc (length (ip_requests st))) (ip_requests (handleVoid srv st)) =
     ip_requests st @ [VoidInvoice (inv_id selected) (ip_voidReason st)]"
  by (simp add: handleVoid_def fetchInvoices_def Let_def split: sum.splits)

text \<open>
  C8. With an empty or white-space-only reason \<open>handleVoid\<close> returns at once: the state,
  and with it the request log, is unchanged, and the confirm button is disabled. With a
  selected invoice and any other reason the void request is the next request issued. The two
  tabs are complementary filters of the same fetched list: an invoice of the list is under
  "voided" iff its status is ANULADA and under "active" iff it is not, and together the two
  tabs hold every invoice of the list exactly once.
\<close>

theorem void_requires_reason_and_tabs_partition:
  "(list_all isWhiteSpace (ip_voidReason st) \<longrightarrow>
      handleVoid srv st = st \<and> voidButtonDisabled st \<and> voidButtonClick srv st = st) \<and>
   (\<not> list_all isWhiteSpace (ip_voidReason st) \<and> ip_selectedInvoice st = Some selected \<longrightarrow>
      take (Suc (length (ip_requests st))) (ip_requests (handleVoid srv st)) =
        ip_requests st @ [VoidInvoice (inv_id selected) (ip_voidReason st)]) \<and>
   (v \<in> set (voidedInvoices st) \<longleftrightarrow> v \<in> set (ip_invoices st) \<and> inv_status v = ANULADA) \<and>
   (v \<in> set (activeInvoices st) \<longleftrightarrow> v \<in> set (ip_invoices st) \<and> inv_status v \<noteq> ANULADA) \<and>
   mset (activeInvoices st) + mset (voidedInvoices st) = mset (ip_invoices st)"
proof -
  have "list_all isWhiteSpace (ip_voidReason st) \<longrightarrow>
      handleVoid srv st = st \<and> voidButtonDisabled st \<and> voidButtonClick srv st = st"
    by (simp add: handleVoid_blank trim_blank voidButtonDisabled_def voidButtonClick_def)
  moreover have "\<not> list_all isWhiteSpace (ip_voidReason st) \<and> ip_selectedInvoice st = Some selected \<longrightarrow>
      take (Suc (length (ip_requests st))) (ip_requests (handleVoid srv st)) =
        ip_requests st @ [VoidInvoice (inv_id selected) (ip_voidReason st)]"
    using handleVoid_sends [of st selected srv] by (simp add: trim_empty_iff)
  moreover have "v \<in> set (voidedInvoices st) \<longleftrightarrow> v \<in> set (ip_invoices st) \<and> inv_status v = ANULADA"
    by (simp add: voidedInvoices_def)
  moreover have "v \<in> set (activeInvoices st) \<longleftrightarrow> v \<in> set (ip_invoices st) \<and> inv_status v \<noteq> ANULADA"
    by (simp add: activeInvoices_def)
  moreover have "mset (activeInvoices st) + mset (voidedInvoices st) = mset (ip_invoices st)"
    by (simp add: activeInvoices_def voidedInvoices_def)
  ultimately show ?thesis
    by blast
qed

text \<open>
  A page holding one completed and one voided invoice, the completed one selected for
  voiding, with a reason of an em space and a space, and then with a real reason.
\<close>

definition sale_41 :: invoice where
  "sale_41 = \<lparr>inv_id = 41, inv_invoiceNumber = ''F-0041'', inv_customerId = None,
              inv_total = 22500, inv_paymentMethod = ''EFECTIVO'', inv_status = COMPLETADA\<rparr>"

definition sale_40 :: invoice where
  "sale_40 = \<lparr>inv_id = 40, inv_invoiceNumber = ''F-0040'', inv_customerId = Some 3,
              inv_total = 8000, inv_paymentMethod = ''TARJETA_CREDITO'', inv_status = ANULADA\<rparr>"

definition void_page :: "code_units \<Rightarrow> invoices_page" where
  "void_page reason =
     \<lparr>ip_invoices = [sale_41, sale_40], ip_loading = False, ip_selectedInvoice = Some sale_41,
      ip_showVoidModal = True, ip_voidReason = reason, ip_processing = False,
      ip_activeTab = TabActive, ip_toasts = [], ip_requests = []\<rparr>"

theorem void_requires_reason_and_tabs_partition_witness:
  "list_all isWhiteSpace (ip_voidReason (void_page [0x2003, 0x20])) \<and>
   ip_requests (handleVoid (\<lambda>i r. Inr ()) (void_page [0x2003, 0x20])) = [] \<and>
   \<not> list_all isWhiteSpace (ip_voidReason (void_page (units ''error de caja''))) \<and>
   take 1 (ip_requests (handleVoid (\<lambda>i r. Inr ()) (void_page (units ''error de caja'')))) =
     [VoidInvoice 41 (units ''error de caja'')] \<and>
   sale_40 \<in> set (voidedInvoices (void_page [])) \<and>
   sale_41 \<in> set (activeInvoices (void_page []))"
proof -
  have blank: "list_all isWhiteSpace (ip_voidReason (void_page [0x2003, 0x20]))"
    by (simp add: void_page_def isWhiteSpace_def)
  have real: "\<not> list_all isWhiteSpace (ip_voidReason (void_page (units ''error de caja'')))"
    by (simp add: void_page_def isWhiteSpace_def units_def)
  have sel: "ip_selectedInvoice (void_page (units ''error de caja'')) = Some sale_41"
    by (simp add: void_page_def)
  have mem: "sale_40 \<in> set (ip_invoices (void_page [])) \<and> inv_status sale_40 = ANULADA \<and>
             sale_41 \<in> set (ip_invoices (void_page [])) \<and> inv_status sale_41 \<noteq> ANULADA"
    by (simp add: void_page_def sale_40_def sale_41_def)
  from void_requires_reason_and_tabs_partition [of "void_page [0x2003, 0x20]" "\<lambda>i r. Inr ()"] blank
  have a: "ip_requests (handleVoid (\<lambda>i r. Inr ()) (void_page [0x2003, 0x20])) = []"
    by (simp add: void_page_def)
  from void_requires_reason_and_tabs_partition
         [of "void_page (units ''error de caja'')" "\<lambda>i r. Inr ()" sale_41] real sel
  have b: "take 1 (ip_requests (handleVoid (\<lambda>i r. Inr ()) (void_page (units ''error de caja'')))) =
     [VoidInvoice 41 (units ''error de caja'')]"
    by (simp add: void_page_def sale_41_def)
  from void_requires_reason_and_tabs_partition [of "void_page []" _ _ sale_40] mem
  have c: "sale_40 \<in> set (voidedInvoices (void_page []))"
    by blast
  from void_requires_reason_and_tabs_partition [of "void_page []" _ _ sale_41] mem
  have d: "sale_41 \<in> set (activeInvoices (void_page []))"
    by blast
  from blank real a b c d show ?thesis
    by blast
qed

section \<open>POSPage.tsx: the cart as the page reads it\<close>

text \<open>
  The page reads \<open>items, customerName, customerId, discount, discountType, notes\<close> from
  \<open>state.cart\<close>; a line of the cart has the fields \<open>id, code, name, price, quantity\<close>.
\<close>

record cart_item =
  item_id :: nat
  item_code :: string
  item_name :: string
  item_price :: rat
  item_quantity :: int

datatype discount_kind = Percent | Amount

record cart =
  cart_items :: "cart_item list"
  cart_customerId :: "nat option"
  cart_customerName :: string
  cart_discount :: rat
  cart_discountType :: discount_kind
  cart_notes :: string

text \<open>The actions the page dispatches to the cart store.\<close>

datatype cart_action =
    AddItem nat string string rat
  | IncrementQuantity nat
  | DecrementQuantity nat
  | RemoveItem nat
  | ClearCart

text \<open>What a click does: nothing (a disabled button), an error toast, or a dispatch.\<close>

datatype click = Disabled | Refused toast | Dispatch cart_action

subsection \<open>The stock guard of the product grid and of the plus button\<close>

text \<open>\<open>product.inventory?.quantity || 0\<close>\<close>

definition stock :: "product \<Rightarrow> int" where
  "stock p = (case prod_inventory p of None \<Rightarrow> 0 | Some i \<Rightarrow> inv_quantity i)"

text \<open>\<open>items.find(i => i.id === product.id)?.quantity || 0\<close>\<close>

definition cartQty :: "cart_item list \<Rightarrow> product \<Rightarrow> int" where
  "cartQty items p =
     (case List.find (\<lambda>i. item_id i = prod_id p) items of None \<Rightarrow> 0 | Some i \<Rightarrow> item_quantity i)"

definition availableStock :: "cart_item list \<Rightarrow> product \<Rightarrow> int" where
  "availableStock items p = stock p - cartQty items p"

definition isOutOfStock :: "cart_item list \<Rightarrow> product \<Rightarrow> bool" where
  "isOutOfStock items p = (availableStock items p \<le> 0)"

text \<open>
  The product card: the button is \<open>disabled={stock === 0}\<close>; its \<open>onClick\<close> refuses with a
  toast when \<open>isOutOfStock\<close> and dispatches \<open>addItem\<close> otherwise.
\<close>

definition productClick :: "cart_item list \<Rightarrow> product \<Rightarrow> click" where
  "productClick items p =
     (if stock p = 0 then Disabled
      else if isOutOfStock items p
        then Refused (ToastError (''Sin stock disponible para '' @ prod_name p))
        else Dispatch (AddItem (prod_id p) (prod_code p) (prod_name p) (prod_salePrice p)))"

text \<open>\<open>products.find(p => p.id === item.id)?.inventory?.quantity || 0\<close>\<close>

definition maxStock :: "product list \<Rightarrow> cart_item \<Rightarrow> int" where
  "maxStock products item =
     (case List.find (\<lambda>p. prod_id p = item_id item) products of None \<Rightarrow> 0 | Some p \<Rightarrow> stock p)"

definition canIncrement :: "product list \<Rightarrow> cart_item \<Rightarrow> bool" where
  "canIncrement products item = (item_quantity item < maxStock products item)"

definition plusClick :: "product list \<Rightarrow> cart_item \<Rightarrow> click" where
  "plusClick products item =
     (if \<not> canIncrement products item then Refused (ToastError ''Stock maximo alcanzado'')
      else Dispatch (IncrementQuantity (item_id item)))"

definition dispatches :: "click \<Rightarrow> bool" where
  "dispatches c = (case c of Dispatch a \<Rightarrow> True | Disabled \<Rightarrow> False | Refused t \<Rightarrow> False)"

text \<open>
  C4. The guard of the product grid lets the click through iff the fetched stock minus the
  quantity of that product in the cart is positive, that is iff the quantity in the cart is
  strictly below the stock; with a non-negative quantity in the cart the card's click then
  dispatches \<open>addItem\<close> in exactly that case (the card of a product with stock 0 is disabled).
  The plus button of a cart line dispatches the increment iff the line's quantity is strictly
  below the fetched stock of its product.
\<close>

theorem stock_guard:
  "(\<not> isOutOfStock items p \<longleftrightarrow> availableStock items p > 0) \<and>
   (\<not> isOutOfStock items p \<longleftrightarrow> cartQty items p < stock p) \<and>
   (0 \<le> cartQty items p \<longrightarrow> (dispatches (productClick items p) \<longleftrightarrow> cartQty items p < stock p)) \<and>
   (dispatches (plusClick products item) \<longleftrightarrow> item_quantity item < maxStock products item)"
  by (auto simp: isOutOfStock_def availableStock_def productClick_def plusClick_def
      canIncrement_def dispatches_def)

text \<open>
  Coffee has 3 in stock. With 2 in the cart one more may be added, from the grid and with
  the plus button; with 3 in the cart both are refused.
\<close>

definition coffee_line :: "int \<Rightarrow> cart_item" where
  "coffee_line q = \<lparr>item_id = 7, item_code = ''CAF'', item_name = ''Cafe'', item_price = 4000,
                    item_quantity = q\<rparr>"

theorem stock_guard_witness:
  "0 \<le> cartQty [coffee_line 2] coffee \<and> cartQty [coffee_line 2] coffee < stock coffee \<and>
   dispatches (productClick [coffee_line 2] coffee) \<and>
   dispatches (plusClick [coffee] (coffee_line 2)) \<and>
   0 \<le> cartQty [coffee_line 3] coffee \<and> \<not> cartQty [coffee_line 3] coffee < stock coffee \<and>
   \<not> dispatches (productClick [coffee_line 3] coffee) \<and>
   \<not> dispatches (plusClick [coffee] (coffee_line 3))"
proof -
  have q2: "cartQty [coffee_line 2] coffee = 2" and q3: "cartQty [coffee_line 3] coffee = 3"
    by (simp_all add: cartQty_def coffee_line_def coffee_def)
  have s: "stock coffee = 3"
    by (simp add: stock_def coffee_def)
  have m: "maxStock [coffee] (coffee_line 2) = 3" "maxStock [coffee] (coffee_line 3) = 3"
    by (simp_all add: maxStock_def coffee_line_def coffee_def stock_def)
  have i: "item_quantity (coffee_line 2) = 2" "item_quantity (coffee_line 3) = 3"
    by (simp_all add: coffee_line_def)
  from stock_guard [of "[coffee_line 2]" coffee "[coffee]" "coffee_line 2"]
       stock_guard [of "[coffee_line 3]" coffee "[coffee]" "coffee_line 3"] q2 q3 s m i
  show ?thesis
    by simp
qed

subsection \<open>Derived totals of the cart\<close>

record cart_totals =
  tot_subtotal :: rat
  tot_discountAmount :: rat
  tot_total :: rat
  tot_itemCount :: int

text \<open>The spec's clamp of a value into the interval from \<open>lo\<close> to \<open>hi\<close>.\<close>

definition clampTo :: "rat \<Rightarrow> rat \<Rightarrow> rat \<Rightarrow> rat" where
  "clampTo lo hi x = (if x < lo then lo else if hi < x then hi else x)"

definition rawDiscount :: "cart \<Rightarrow> rat \<Rightarrow> rat" where
  "rawDiscount c sub =
     (if cart_discountType c = Percent then sub * cart_discount c / 100 else cart_discount c)"

text \<open>
  Modelled from the spec: \<open>selectCartTotal\<close> of the cart store (\<open>../store/cartSlice\<close>, which
  the page imports and which is not among the sources). The spec gives
  \<open>subtotal = \<Sigma>(unitPrice \<times> quantity)\<close>,
  \<open>discountAmount = kind === 'percent' ? subtotal \<times> value / 100 : value\<close> clamped to
  \<open>[0, subtotal]\<close>, \<open>total = subtotal \<minus> discountAmount\<close>, \<open>itemCount = \<Sigma> quantity\<close>.
\<close>

definition selectCartTotal :: "cart \<Rightarrow> cart_totals" where
  "selectCartTotal c =
     (let sub = (\<Sum>i\<leftarrow>cart_items c. item_price i * of_int (item_quantity i));
          disc = clampTo 0 sub (rawDiscount c sub)
      in \<lparr>tot_subtotal = sub, tot_discountAmount = disc, tot_total = sub - disc,
          tot_itemCount = (\<Sum>i\<leftarrow>cart_items c. item_quantity i)\<rparr>)"

text \<open>
  Modelled from the spec: \<open>clearCart\<close> of the cart store (not among the sources). The spec
  says it empties the lines and resets discount and notes, and keeps the selected customer.
  The discount value is reset to 0; the discount kind, whose initial value the spec does not
  give, is left as it is.
\<close>

definition clearCart :: "cart \<Rightarrow> cart" where
  "clearCart c = c\<lparr>cart_items := [], cart_discount := 0, cart_notes := []\<rparr>"

section \<open>The service layer: requests and answers\<close>

datatype payment_method = EFECTIVO | TARJETA_CREDITO

datatype table_status = DISPONIBLE | OCUPADA | RESERVADA | FUERA_DE_SERVICIO

record restaurant_table =
  tbl_id :: nat
  tbl_tableNumber :: int
  tbl_name :: string
  tbl_zone :: string
  tbl_status :: table_status
  tbl_isActive :: bool

text \<open>
  The text of an amount field, represented by what \<open>parseFloat\<close> reads from it: \<open>NaN\<close> for
  a text with no leading number (the empty field among them), \<open>Num x\<close> otherwise.
  \<open>total.toString()\<close> is the text that reads back as \<open>Num total\<close>. Every comparison with
  \<open>NaN\<close> is false.
\<close>

datatype number = NaN | Num rat

fun js_less :: "number \<Rightarrow> rat \<Rightarrow> bool" where
  "js_less NaN y = False"
| "js_less (Num x) y = (x < y)"

fun js_greater_eq :: "number \<Rightarrow> rat \<Rightarrow> bool" where
  "js_greater_eq NaN y = False"
| "js_greater_eq (Num x) y = (x \<ge> y)"

record open_table_request =
  otr_guestCount :: int
  otr_notes :: "string option"
  otr_customerId :: "nat option"

record table_item_request =
  tir_productId :: nat
  tir_quantity :: int
  tir_unitPrice :: rat

record pay_table_request =
  ptr_paymentMethod :: payment_method
  ptr_amountReceived :: number
  ptr_discountPercent :: "rat option"
  ptr_notes :: "string option"

record sale_detail =
  sd_productId :: nat
  sd_quantity :: int
  sd_unitPrice :: rat
  sd_discountAmount :: rat

record sale_request =
  sr_customerId :: "nat option"
  sr_paymentMethod :: payment_method
  sr_discountPercent :: rat
  sr_amountReceived :: number
  sr_notes :: string
  sr_details :: "sale_detail list"

record create_table_request =
  ctr_tableNumber :: "int option"
  ctr_name :: "string option"
  ctr_capacity :: int
  ctr_zone :: string

datatype api_request =
    GetActiveProducts
  | GetAllProducts
  | GetActiveCategories
  | GetAllCustomers
  | GetAllTables
  | GetTableById nat
  | GetActiveSession nat
  | OpenTable nat open_table_request
  | AddItems nat "table_item_request list"
  | RemoveItem nat nat
  | PayTable nat pay_table_request
  | ChangeStatus nat table_status
  | CreateTable create_table_request
  | CreateSale sale_request
  | GetInvoiceById nat

text \<open>
  Modelled from the spec: the \<open>TableSession\<close> type, whose declaration is not among the
  sources; the spec lists \<open>tableId, invoiceId, guestCount, lines, subtotal, total\<close>.
\<close>

record session_line =
  sl_id :: nat
  sl_productId :: nat
  sl_quantity :: int
  sl_unitPrice :: rat

record table_session =
  ts_tableId :: nat
  ts_invoiceId :: nat
  ts_guestCount :: int
  ts_lines :: "session_line list"
  ts_subtotal :: rat
  ts_total :: rat

text \<open>
  The server as one run of a handler sees it: what each endpoint answers to the call the
  handler makes, \<open>Inl\<close> when the promise is rejected. No handler calls an endpoint twice.
\<close>

record server =
  srv_openTable :: "nat \<Rightarrow> open_table_request \<Rightarrow> api_error + table_session"
  srv_addItems :: "nat \<Rightarrow> table_item_request list \<Rightarrow> api_error + table_session"
  srv_removeItem :: "nat \<Rightarrow> nat \<Rightarrow> api_error + table_session"
  srv_payTable :: "nat \<Rightarrow> pay_table_request \<Rightarrow> api_error + invoice"
  srv_changeStatus :: "nat \<Rightarrow> table_status \<Rightarrow> api_error + restaurant_table"
  srv_createTable :: "create_table_request \<Rightarrow> api_error + restaurant_table"
  srv_getAllTables :: "api_error + restaurant_table list option"
  srv_getTableById :: "nat \<Rightarrow> api_error + restaurant_table"
  srv_createSale :: "sale_request \<Rightarrow> api_error + invoice"
  srv_getInvoiceById :: "nat \<Rightarrow> api_error + invoice"

section \<open>POSPage.tsx: payment modal and checkout\<close>

record pos_page =
  pp_cart :: cart
  pp_products :: "product list"
  pp_tables :: "restaurant_table list"
  pp_selectedTableId :: "nat option"
  pp_paymentMethod :: payment_method
  pp_amountReceived :: number
  pp_showPaymentModal :: bool
  pp_loading :: bool
  pp_processing :: bool
  pp_completedInvoice :: "invoice option"
  pp_showInvoiceConfirmModal :: bool
  pp_toasts :: "toast list"
  pp_requests :: "api_request list"

definition issue :: "api_request \<Rightarrow> pos_page \<Rightarrow> pos_page" where
  "issue r st = st\<lparr>pp_requests := pp_requests st @ [r]\<rparr>"

text \<open>
  \<open>fetchData\<close> and \<open>fetchTables\<close> up to their first \<open>await\<close>. The checkout calls them
  without awaiting them, so within the handler they raise the loading flag and send their
  requests; their answers arrive after the handler has finished.
\<close>

definition fetchData :: "pos_page \<Rightarrow> pos_page" where
  "fetchData st =
     st\<lparr>pp_loading := True,
        pp_requests := pp_requests st @ [GetActiveProducts, GetActiveCategories, GetAllCustomers]\<rparr>"

definition fetchTables :: "pos_page \<Rightarrow> pos_page" where
  "fetchTables st = issue GetAllTables st"

text \<open>\<open>tables.find(t => t.id === selectedTableId) || null\<close>\<close>

definition selectedTable :: "pos_page \<Rightarrow> restaurant_table option" where
  "selectedTable st =
     (case pp_selectedTableId st of
        None \<Rightarrow> None
      | Some tid \<Rightarrow> List.find (\<lambda>t. tbl_id t = tid) (pp_tables st))"

text \<open>The three bodies that the handler builds from the cart and the payment form.\<close>

definition tableItems :: "cart_item list \<Rightarrow> table_item_request list" where
  "tableItems items =
     map (\<lambda>item. \<lparr>tir_productId = item_id item, tir_quantity = item_quantity item,
                   tir_unitPrice = item_price item\<rparr>) items"

definition discountPercent :: "cart \<Rightarrow> rat" where
  "discountPercent c = (if cart_discountType c = Percent then cart_discount c else 0)"

definition payRequest :: "pos_page \<Rightarrow> pay_table_request" where
  "payRequest st =
     \<lparr>ptr_paymentMethod = pp_paymentMethod st,
      ptr_amountReceived = pp_amountReceived st,
      ptr_discountPercent = Some (discountPercent (pp_cart st)),
      ptr_notes = (if cart_notes (pp_cart st) = [] then None else Some (cart_notes (pp_cart st)))\<rparr>"

definition openRequest :: "pos_page \<Rightarrow> open_table_request" where
  "openRequest st =
     \<lparr>otr_guestCount = 1, otr_notes = None, otr_customerId = cart_customerId (pp_cart st)\<rparr>"

definition saleRequest :: "pos_page \<Rightarrow> sale_request" where
  "saleRequest st =
     \<lparr>sr_customerId = cart_customerId (pp_cart st),
      sr_paymentMethod = pp_paymentMethod st,
      sr_discountPercent = discountPercent (pp_cart st),
      sr_amountReceived = pp_amountReceived st,
      sr_notes = cart_notes (pp_cart st),
      sr_details =
        map (\<lambda>item. \<lparr>sd_productId = item_id item, sd_quantity = item_quantity item,
                      sd_unitPrice = item_price item, sd_discountAmount = 0\<rparr>)
          (cart_items (pp_cart st))\<rparr>"

text \<open>
  The state updates after the invoice has been fetched, on the two table branches and on
  the direct branch.
\<close>

definition tableSaleDone :: "invoice \<Rightarrow> pos_page \<Rightarrow> pos_page" where
  "tableSaleDone invoiceDetail st =
     fetchTables (fetchData
       (st\<lparr>pp_completedInvoice := Some invoiceDetail,
           pp_cart := clearCart (pp_cart st),
           pp_selectedTableId := None,
           pp_showPaymentModal := False,
           pp_showInvoiceConfirmModal := True\<rparr>))"

definition directSaleDone :: "invoice \<Rightarrow> pos_page \<Rightarrow> pos_page" where
  "directSaleDone invoiceDetail st =
     fetchData
       (st\<lparr>pp_completedInvoice := Some invoiceDetail,
           pp_cart := clearCart (pp_cart st),
           pp_showPaymentModal := False,
           pp_showInvoiceConfirmModal := True\<rparr>)"

text \<open>
  The steps of the \<open>try\<close> block. Each returns the error of the first rejected call, if any,
  and the state reached; the bodies are built from \<open>st0\<close>, the state the handler was
  created in.
\<close>

definition fetchInvoiceStep ::
  "server \<Rightarrow> (invoice \<Rightarrow> pos_page \<Rightarrow> pos_page) \<Rightarrow> invoice \<Rightarrow> pos_page \<Rightarrow> api_error option \<times> pos_page" where
  "fetchInvoiceStep srv done result st =
     (let st1 = issue (GetInvoiceById (inv_id result)) st
      in case srv_getInvoiceById srv (inv_id result) of
           Inl e \<Rightarrow> (Some e, st1)
         | Inr invoiceDetail \<Rightarrow> (None, done invoiceDetail st1))"

definition payStep :: "server \<Rightarrow> pos_page \<Rightarrow> nat \<Rightarrow> pos_page \<Rightarrow> api_error option \<times> pos_page" where
  "payStep srv st0 tid st =
     (let st1 = issue (PayTable tid (payRequest st0)) st
      in case srv_payTable srv tid (payRequest st0) of
           Inl e \<Rightarrow> (Some e, st1)
         | Inr result \<Rightarrow> fetchInvoiceStep srv tableSaleDone result st1)"

definition addItemsStep :: "server \<Rightarrow> pos_page \<Rightarrow> nat \<Rightarrow> pos_page \<Rightarrow> api_error option \<times> pos_page" where
  "addItemsStep srv st0 tid st =
     (let body = tableItems (cart_items (pp_cart st0));
          st1 = issue (AddItems tid body) st
      in case srv_addItems srv tid body of
           Inl e \<Rightarrow> (Some e, st1)
         | Inr session \<Rightarrow> payStep srv st0 tid st1)"

definition openStep :: "server \<Rightarrow> pos_page \<Rightarrow> nat \<Rightarrow> pos_page \<Rightarrow> api_error option \<times> pos_page" where
  "openStep srv st0 tid st =
     (let st1 = issue (OpenTable tid (openRequest st0)) st
      in case srv_openTable srv tid (openRequest st0) of
           Inl e \<Rightarrow> (Some e, st1)
         | Inr session \<Rightarrow> addItemsStep srv st0 tid st1)"

definition directSale :: "server \<Rightarrow> pos_page \<Rightarrow> pos_page \<Rightarrow> api_error option \<times> pos_page" where
  "directSale srv st0 st =
     (let st1 = issue (CreateSale (saleRequest st0)) st
      in case srv_createSale srv (saleRequest st0) of
           Inl e \<Rightarrow> (Some e, st1)
         | Inr result \<Rightarrow> fetchInvoiceStep srv directSaleDone result st1)"

text \<open>
  The branch of the handler. \<open>selectedTableId && selectedTable && ...\<close>: the id 0 is falsy,
  as is a table that is not in the fetched list.
\<close>

datatype branch = TableAvailable nat | TableOccupied nat | Direct

definition checkoutBranch :: "pos_page \<Rightarrow> branch" where
  "checkoutBranch st =
     (case pp_selectedTableId st of
        None \<Rightarrow> Direct
      | Some tid \<Rightarrow>
          (case selectedTable st of
             None \<Rightarrow> Direct
           | Some t \<Rightarrow>
               if tid \<noteq> 0 \<and> tbl_status t = DISPONIBLE then TableAvailable tid
               else if tid \<noteq> 0 \<and> tbl_status t = OCUPADA then TableOccupied tid
               else Direct))"

definition trySale :: "server \<Rightarrow> pos_page \<Rightarrow> api_error option \<times> pos_page" where
  "trySale srv st =
     (case checkoutBranch st of
        TableAvailable tid \<Rightarrow> openStep srv st tid st
      | TableOccupied tid \<Rightarrow> addItemsStep srv st tid st
      | Direct \<Rightarrow> directSale srv st st)"

definition saleFailed :: "api_error \<Rightarrow> pos_page \<Rightarrow> pos_page" where
  "saleFailed e st =
     st\<lparr>pp_toasts := pp_toasts st @ [ToastError (errorMessage e ''Error al procesar la venta'')]\<rparr>"

definition handleConfirmSale :: "server \<Rightarrow> pos_page \<Rightarrow> pos_page" where
  "handleConfirmSale srv st =
     (case trySale srv (st\<lparr>pp_processing := True\<rparr>) of
        (None, st') \<Rightarrow> st'\<lparr>pp_processing := False\<rparr>
      | (Some e, st') \<Rightarrow> (saleFailed e st')\<lparr>pp_processing := False\<rparr>)"

text \<open>
  The payment modal. Its confirm button is
  \<open>disabled={processing || (paymentMethod === 'EFECTIVO' && parseFloat(amountReceived) < total)}\<close>;
  the change line is shown when \<open>parseFloat(amountReceived) >= total\<close>.
\<close>

definition confirmDisabled :: "pos_page \<Rightarrow> bool" where
  "confirmDisabled st =
     (pp_processing st \<or>
      (pp_paymentMethod st = EFECTIVO \<and>
       js_less (pp_amountReceived st) (tot_total (selectCartTotal (pp_cart st)))))"

definition changeShown :: "pos_page \<Rightarrow> bool" where
  "changeShown st =
     (pp_paymentMethod st = EFECTIVO \<and>
      js_greater_eq (pp_amountReceived st) (tot_total (selectCartTotal (pp_cart st))))"

definition confirmClick :: "server \<Rightarrow> pos_page \<Rightarrow> pos_page" where
  "confirmClick srv st =
     (if pp_showPaymentModal st \<and> \<not> confirmDisabled st then handleConfirmSale srv st else st)"

text \<open>
  The two payment buttons under the cart, disabled on an empty cart: they set the method,
  put \<open>total.toString()\<close> into the amount field and open the modal. \<open>setAmountReceived\<close> is
  the \<open>onChange\<close> of the amount field, shown for cash only.
\<close>

definition paymentButtonClick :: "payment_method \<Rightarrow> pos_page \<Rightarrow> pos_page" where
  "paymentButtonClick m st =
     (if cart_items (pp_cart st) = [] then st
      else st\<lparr>pp_paymentMethod := m,
              pp_amountReceived := Num (tot_total (selectCartTotal (pp_cart st))),
              pp_showPaymentModal := True\<rparr>)"

definition setAmountReceived :: "number \<Rightarrow> pos_page \<Rightarrow> pos_page" where
  "setAmountReceived typed st =
     (if pp_showPaymentModal st \<and> pp_paymentMethod st = EFECTIVO
      then st\<lparr>pp_amountReceived := typed\<rparr> else st)"

subsection \<open>The checkout on a server that accepts every call\<close>

definition catalogRequests :: "api_request list" where
  "catalogRequests = [GetActiveProducts, GetActiveCategories, GetAllCustomers]"

lemma bodies_processing [simp]:
  "saleRequest (st\<lparr>pp_processing := b\<rparr>) = saleRequest st"
  "payRequest (st\<lparr>pp_processing := b\<rparr>) = payRequest st"
  "openRequest (st\<lparr>pp_processing := b\<rparr>) = openRequest st"
  "selectedTable (st\<lparr>pp_processing := b\<rparr>) = selectedTable st"
  by (simp_all add: saleRequest_def payRequest_def openRequest_def selectedTable_def
      split: option.splits)

lemma branch_processing [simp]:
  "checkoutBranch (st\<lparr>pp_processing := b\<rparr>) = checkoutBranch st"
  by (simp add: checkoutBranch_def split: option.splits)

lemma fetchInvoiceStep_ok:
  "srv_getInvoiceById srv (inv_id result) = Inr full \<Longrightarrow>
   fetchInvoiceStep srv done result st = (None, done full (issue (GetInvoiceById (inv_id result)) st))"
  by (simp add: fetchInvoiceStep_def)

lemma payStep_ok:
  "srv_payTable srv tid (payRequest st0) = Inr paid \<Longrightarrow>
   srv_getInvoiceById srv (inv_id paid) = Inr full \<Longrightarrow>
   payStep srv st0 tid st =
     (None, tableSaleDone full
        (issue (GetInvoiceById (inv_id paid)) (issue (PayTable tid (payRequest st0)) st)))"
  by (simp add: payStep_def fetchInvoiceStep_ok)

lemma addItemsStep_ok:
  "srv_addItems srv tid (tableItems (cart_items (pp_cart st0))) = Inr session \<Longrightarrow>
   srv_payTable srv tid (payRequest st0) = Inr paid \<Longrightarrow>
   srv_getInvoiceById srv (inv_id paid) = Inr full \<Longrightarrow>
   addItemsStep srv st0 tid st =
     (None, tableSaleDone full
        (issue (GetInvoiceById (inv_id paid)) (issue (PayTable tid (payRequest st0))
           (issue (AddItems tid (tableItems (cart_items (pp_cart st0)))) st))))"
  by (simp add: addItemsStep_def payStep_ok)

lemma openStep_ok:
  "srv_openTable srv tid (openRequest st0) = Inr opened \<Longrightarrow>
   srv_addItems srv tid (tableItems (cart_items (pp_cart st0))) = Inr session \<Longrightarrow>
   srv_payTable srv tid (payRequest st0) = Inr paid \<Longrightarrow>
   srv_getInvoiceById srv (inv_id paid) = Inr full \<Longrightarrow>
   openStep srv st0 tid st =
     (None, tableSaleDone full
        (issue (GetInvoiceById (inv_id paid)) (issue (PayTable tid (payRequest st0))
           (issue (AddItems tid (tableItems (cart_items (pp_cart st0))))
              (issue (OpenTable tid (openRequest st0)) st)))))"
  by (simp add: openStep_def addItemsStep_ok)

lemma directSale_ok:
  "srv_createSale srv (saleRequest st0) = Inr created \<Longrightarrow>
   srv_getInvoiceById srv (inv_id created) = Inr full \<Longrightarrow>
   directSale srv st0 st =
     (None, directSaleDone full
        (issue (GetInvoiceById (inv_id created)) (issue (CreateSale (saleRequest st0)) st)))"
  by (simp add: directSale_def fetchInvoiceStep_ok)

text \<open>The state after a successful checkout, branch by branch.\<close>

lemma direct_checkout_state:
  assumes "checkoutBranch st = Direct"
    and "srv_createSale srv (saleRequest st) = Inr created"
    and "srv_getInvoiceById srv (inv_id created) = Inr full"
  shows "handleConfirmSale srv st =
     st\<lparr>pp_cart := clearCart (pp_cart st),
        pp_showPaymentModal := False,
        pp_loading := True,
        pp_processing := False,
        pp_completedInvoice := Some full,
        pp_showInvoiceConfirmModal := True,
        pp_requests := pp_requests st @
          [CreateSale (saleRequest st), GetInvoiceById (inv_id created)] @ catalogRequests\<rparr>"
  using assms
  by (simp add: handleConfirmSale_def trySale_def directSale_ok directSaleDone_def
      fetchData_def issue_def catalogRequests_def)

lemma available_checkout_state:
  assumes "checkoutBranch st = TableAvailable tid"
    and "srv_openTable srv tid (openRequest st) = Inr opened"
    and "srv_addItems srv tid (tableItems (cart_items (pp_cart st))) = Inr session"
    and "srv_payTable srv tid (payRequest st) = Inr paid"
    and "srv_getInvoiceById srv (inv_id paid) = Inr full"
  shows "handleConfirmSale srv st =
     st\<lparr>pp_cart := clearCart (pp_cart st),
        pp_selectedTableId := None,
        pp_showPaymentModal := False,
        pp_loading := True,
        pp_processing := False,
        pp_completedInvoice := Some full,
        pp_showInvoiceConfirmModal := True,
        pp_requests := pp_requests st @
          [OpenTable tid (openRequest st),
           AddItems tid (tableItems (cart_items (pp_cart st))),
           PayTable tid (payRequest st),
           GetInvoiceById (inv_id paid)] @ catalogRequests @ [GetAllTables]\<rparr>"
  using assms
  by (simp add: handleConfirmSale_def trySale_def openStep_ok [where opened = opened and session = session]
      tableSaleDone_def fetchData_def fetchTables_def issue_def catalogRequests_def)

lemma occupied_checkout_state:
  assumes "checkoutBranch st = TableOccupied tid"
    and "srv_addItems srv tid (tableItems (cart_items (pp_cart st))) = Inr session"
    and "srv_payTable srv tid (payRequest st) = Inr paid"
    and "srv_getInvoiceById srv (inv_id paid) = Inr full"
  shows "handleConfirmSale srv st =
     st\<lparr>pp_cart := clearCart (pp_cart st),
        pp_selectedTableId := None,
        pp_showPaymentModal := False,
        pp_loading := True,
        pp_processing := False,
        pp_completedInvoice := Some full,
        pp_showInvoiceConfirmModal := True,
        pp_requests := pp_requests st @
          [AddItems tid (tableItems (cart_items (pp_cart st))),
           PayTable tid (payRequest st),
           GetInvoiceById (inv_id paid)] @ catalogRequests @ [GetAllTables]\<rparr>"
  using assms
  by (simp add: handleConfirmSale_def trySale_def addItemsStep_ok [where session = session]
      tableSaleDone_def fetchData_def fetchTables_def issue_def catalogRequests_def)

lemma branch_none: "pp_selectedTableId st = None \<Longrightarrow> checkoutBranch st = Direct"
  by (simp add: checkoutBranch_def)

lemma branch_available:
  "pp_selectedTableId st = Some tid \<Longrightarrow> tid \<noteq> 0 \<Longrightarrow> selectedTable st = Some t \<Longrightarrow>
   tbl_status t = DISPONIBLE \<Longrightarrow> checkoutBranch st = TableAvailable tid"
  by (simp add: checkoutBranch_def)

lemma branch_occupied:
  "pp_selectedTableId st = Some tid \<Longrightarrow> tid \<noteq> 0 \<Longrightarrow> selectedTable st = Some t \<Longrightarrow>
   tbl_status t = OCUPADA \<Longrightarrow> checkoutBranch st = TableOccupied tid"
  by (simp add: checkoutBranch_def)

text \<open>
  C2. The confirmation branches on the selected table. With no table selected it sends one
  direct-sale creation, built from the cart's lines, customer, discount (as a percentage; 0
  when the cart's discount is a plain amount), payment method and amount received, and then
  fetches the invoice by the id the creation returned. With a
  selected table (of a non-zero id) that the fetched list shows as DISPONIBLE it sends, in
  this order, open table (guest count 1, the cart's customer), add items (the cart's lines),
  pay table (the payment parameters), and then fetches the invoice by the id the payment
  returned. With a selected table shown as OCUPADA it sends add items and pay table only,
  and then the same fetch. In each branch exactly one invoice is fetched, and the requests
  after it are the list refreshes only.
\<close>

theorem checkout_request_sequence:
  "(pp_selectedTableId st = None \<and>
    srv_createSale srv (saleRequest st) = Inr created \<and>
    srv_getInvoiceById srv (inv_id created) = Inr full \<longrightarrow>
      pp_requests (handleConfirmSale srv st) =
        pp_requests st @ [CreateSale (saleRequest st), GetInvoiceById (inv_id created)]
          @ catalogRequests) \<and>
   (pp_selectedTableId st = Some tid \<and> tid \<noteq> 0 \<and> selectedTable st = Some t \<and>
    tbl_status t = DISPONIBLE \<and>
    srv_openTable srv tid (openRequest st) = Inr opened \<and>
    srv_addItems srv tid (tableItems (cart_items (pp_cart st))) = Inr session \<and>
    srv_payTable srv tid (payRequest st) = Inr paid \<and>
    srv_getInvoiceById srv (inv_id paid) = Inr full \<longrightarrow>
      pp_requests (handleConfirmSale srv st) =
        pp_requests st @
          [OpenTable tid (openRequest st),
           AddItems tid (tableItems (cart_items (pp_cart st))),
           PayTable tid (payRequest st),
           GetInvoiceById (inv_id paid)] @ catalogRequests @ [GetAllTables]) \<and>
   (pp_selectedTableId st = Some tid \<and> tid \<noteq> 0 \<and> selectedTable st = Some t \<and>
    tbl_status t = OCUPADA \<and>
    srv_addItems srv tid (tableItems (cart_items (pp_cart st))) = Inr session \<and>
    srv_payTable srv tid (payRequest st) = Inr paid \<and>
    srv_getInvoiceById srv (inv_id paid) = Inr full \<longrightarrow>
      pp_requests (handleConfirmSale srv st) =
        pp_requests st @
          [AddItems tid (tableItems (cart_items (pp_cart st))),
           PayTable tid (payRequest st),
           GetInvoiceById (inv_id paid)] @ catalogRequests @ [GetAllTables]) \<and>
   otr_guestCount (openRequest st) = 1 \<and>
   otr_customerId (openRequest st) = cart_customerId (pp_cart st) \<and>
   map tir_productId (tableItems (cart_items (pp_cart st))) = map item_id (cart_items (pp_cart st)) \<and>
   map tir_quantity (tableItems (cart_items (pp_cart st))) = map item_quantity (cart_items (pp_cart st)) \<and>
   map tir_unitPrice (tableItems (cart_items (pp_cart st))) = map item_price (cart_items (pp_cart st)) \<and>
   ptr_paymentMethod (payRequest st) = pp_paymentMethod st \<and>
   ptr_amountReceived (payRequest st) = pp_amountReceived st \<and>
   sr_customerId (saleRequest st) = cart_customerId (pp_cart st) \<and>
   sr_paymentMethod (saleRequest st) = pp_paymentMethod st \<and>
   sr_amountReceived (saleRequest st) = pp_amountReceived st \<and>
   sr_discountPercent (saleRequest st) = discountPercent (pp_cart st) \<and>
   map sd_productId (sr_details (saleRequest st)) = map item_id (cart_items (pp_cart st)) \<and>
   map sd_quantity (sr_details (saleRequest st)) = map item_quantity (cart_items (pp_cart st)) \<and>
   map sd_unitPrice (sr_details (saleRequest st)) = map item_price (cart_items (pp_cart st))"
proof -
  have direct: "pp_selectedTableId st = None \<and>
    srv_createSale srv (saleRequest st) = Inr created \<and>
    srv_getInvoiceById srv (inv_id created) = Inr full \<longrightarrow>
      pp_requests (handleConfirmSale srv st) =
        pp_requests st @ [CreateSale (saleRequest st), GetInvoiceById (inv_id created)]
          @ catalogRequests"
    using direct_checkout_state [of st srv created full] branch_none [of st] by simp
  have available: "pp_selectedTableId st = Some tid \<and> tid \<noteq> 0 \<and> selectedTable st = Some t \<and>
    tbl_status t = DISPONIBLE \<and>
    srv_openTable srv tid (openRequest st) = Inr opened \<and>
    srv_addItems srv tid (tableItems (cart_items (pp_cart st))) = Inr session \<and>
    srv_payTable srv tid (payRequest st) = Inr paid \<and>
    srv_getInvoiceById srv (inv_id paid) = Inr full \<longrightarrow>
      pp_requests (handleConfirmSale srv st) =
        pp_requests st @
          [OpenTable tid (openRequest st),
           AddItems tid (tableItems (cart_items (pp_cart st))),
           PayTable tid (payRequest st),
           GetInvoiceById (inv_id paid)] @ catalogRequests @ [GetAllTables]"
    using available_checkout_state [of st tid srv opened session paid full]
      branch_available [of st tid t] by simp
  have occupied: "pp_selectedTableId st = Some tid \<and> tid \<noteq> 0 \<and> selectedTable st = Some t \<and>
    tbl_status t = OCUPADA \<and>
    srv_addItems srv tid (tableItems (cart_items (pp_cart st))) = Inr session \<and>
    srv_payTable srv tid (payRequest st) = Inr paid \<and>
    srv_getInvoiceById srv (inv_id paid) = Inr full \<longrightarrow>
      pp_requests (handleConfirmSale srv st) =
        pp_requests st @
          [AddItems tid (tableItems (cart_items (pp_cart st))),
           PayTable tid (payRequest st),
           GetInvoiceById (inv_id paid)] @ catalogRequests @ [GetAllTables]"
    using occupied_checkout_state [of st tid srv session paid full]
      branch_occupied [of st tid t] by simp
  have bodies: "otr_guestCount (openRequest st) = 1 \<and>
   otr_customerId (openRequest st) = cart_customerId (pp_cart st) \<and>
   map tir_productId (tableItems (cart_items (pp_cart st))) = map item_id (cart_items (pp_cart st)) \<and>
   map tir_quantity (tableItems (cart_items (pp_cart st))) = map item_quantity (cart_items (pp_cart st)) \<and>
   map tir_unitPrice (tableItems (cart_items (pp_cart st))) = map item_price (cart_items (pp_cart st)) \<and>
   ptr_paymentMethod (payRequest st) = pp_paymentMethod st \<and>
   ptr_amountReceived (payRequest st) = pp_amountReceived st \<and>
   sr_customerId (saleRequest st) = cart_customerId (pp_cart st) \<and>
   sr_paymentMethod (saleRequest st) = pp_paymentMethod st \<and>
   sr_amountReceived (saleRequest st) = pp_amountReceived st \<and>
   sr_discountPercent (saleRequest st) = discountPercent (pp_cart st) \<and>
   map sd_productId (sr_details (saleRequest st)) = map item_id (cart_items (pp_cart st)) \<and>
   map sd_quantity (sr_details (saleRequest st)) = map item_quantity (cart_items (pp_cart st)) \<and>
   map sd_unitPrice (sr_details (saleRequest st)) = map item_price (cart_items (pp_cart st))"
    by (simp add: openRequest_def tableItems_def payRequest_def saleRequest_def comp_def)
  from direct available occupied bodies show ?thesis
    by blast
qed

subsection \<open>A concrete till\<close>

text \<open>
  Two lines in the cart (10000 twice, 5000 once) with a discount of 10 percent, paid in cash
  with 25000; table 4 is free and table 5 is occupied. The server \<open>accepting\<close> accepts every
  call: a payment or a creation returns the invoice 77, and fetching an invoice by id
  returns it with that id.
\<close>

definition demo_cart :: cart where
  "demo_cart =
     \<lparr>cart_items =
        [\<lparr>item_id = 1, item_code = ''A'', item_name = ''Producto A'', item_price = 10000,
          item_quantity = 2\<rparr>,
         \<lparr>item_id = 2, item_code = ''B'', item_name = ''Producto B'', item_price = 5000,
          item_quantity = 1\<rparr>],
      cart_customerId = Some 3, cart_customerName = ''Ana'', cart_discount = 10,
      cart_discountType = Percent, cart_notes = []\<rparr>"

definition table_4 :: restaurant_table where
  "table_4 = \<lparr>tbl_id = 4, tbl_tableNumber = 1, tbl_name = ''T'', tbl_zone = ''INTERIOR'',
              tbl_status = DISPONIBLE, tbl_isActive = True\<rparr>"

definition table_5 :: restaurant_table where
  "table_5 = \<lparr>tbl_id = 5, tbl_tableNumber = 2, tbl_name = ''U'', tbl_zone = ''BAR'',
              tbl_status = OCUPADA, tbl_isActive = True\<rparr>"

definition demo_tables :: "restaurant_table list" where
  "demo_tables = [table_4, table_5]"

definition till :: "nat option \<Rightarrow> payment_method \<Rightarrow> number \<Rightarrow> pos_page" where
  "till sel m amount =
     \<lparr>pp_cart = demo_cart, pp_products = [], pp_tables = demo_tables,
      pp_selectedTableId = sel, pp_paymentMethod = m, pp_amountReceived = amount,
      pp_showPaymentModal = True, pp_loading = False, pp_processing = False,
      pp_completedInvoice = None, pp_showInvoiceConfirmModal = False,
      pp_toasts = [], pp_requests = []\<rparr>"

definition demo_invoice :: "nat \<Rightarrow> invoice" where
  "demo_invoice i =
     \<lparr>inv_id = i, inv_invoiceNumber = ''F-0077'', inv_customerId = Some 3, inv_total = 22500,
      inv_paymentMethod = ''EFECTIVO'', inv_status = COMPLETADA\<rparr>"

definition demo_session :: "nat \<Rightarrow> table_session" where
  "demo_session tid =
     \<lparr>ts_tableId = tid, ts_invoiceId = 77, ts_guestCount = 1, ts_lines = [],
      ts_subtotal = 0, ts_total = 0\<rparr>"

definition rejected :: api_error where
  "rejected = ApiError (Some ''Stock insuficiente'')"

definition accepting :: server where
  "accepting =
     \<lparr>srv_openTable = (\<lambda>tid body. Inr (demo_session tid)),
      srv_addItems = (\<lambda>tid body. Inr (demo_session tid)),
      srv_removeItem = (\<lambda>tid detailId. Inr (demo_session tid)),
      srv_payTable = (\<lambda>tid body. Inr (demo_invoice 77)),
      srv_changeStatus = (\<lambda>tid s. Inr (table_4)),
      srv_createTable = (\<lambda>body. Inr (table_4)),
      srv_getAllTables = Inr (Some demo_tables),
      srv_getTableById = (\<lambda>tid. Inr (table_4)),
      srv_createSale = (\<lambda>body. Inr (demo_invoice 77)),
      srv_getInvoiceById = (\<lambda>i. Inr (demo_invoice i))\<rparr>"

lemma till_fields [simp]:
  "pp_selectedTableId (till sel m amount) = sel"
  "pp_cart (till sel m amount) = demo_cart"
  "pp_requests (till sel m amount) = []"
  "pp_toasts (till sel m amount) = []"
  "pp_paymentMethod (till sel m amount) = m"
  "pp_amountReceived (till sel m amount) = amount"
  "pp_processing (till sel m amount) = False"
  "pp_showPaymentModal (till sel m amount) = True"
  "pp_tables (till sel m amount) = demo_tables"
  by (simp_all add: till_def)

lemma accepting_fields [simp]:
  "srv_openTable accepting tid ob = Inr (demo_session tid)"
  "srv_addItems accepting tid ab = Inr (demo_session tid)"
  "srv_payTable accepting tid pb = Inr (demo_invoice 77)"
  "srv_createSale accepting sb = Inr (demo_invoice 77)"
  "srv_getInvoiceById accepting i = Inr (demo_invoice i)"
  by (simp_all add: accepting_def)

lemma demo_selected [simp]:
  "selectedTable (till (Some 4) m amount) = Some (table_4)"
  "selectedTable (till (Some 5) m amount) = Some (table_5)"
  "tbl_status (table_4) = DISPONIBLE"
  "tbl_status (table_5) = OCUPADA"
  by (simp_all add: selectedTable_def demo_tables_def table_4_def table_5_def)

lemma demo_invoice_id [simp]: "inv_id (demo_invoice i) = i"
  by (simp add: demo_invoice_def)

theorem checkout_request_sequence_witness:
  "pp_requests (handleConfirmSale accepting (till None EFECTIVO (Num 25000))) =
     [CreateSale (saleRequest (till None EFECTIVO (Num 25000))), GetInvoiceById 77,
      GetActiveProducts, GetActiveCategories, GetAllCustomers] \<and>
   pp_requests (handleConfirmSale accepting (till (Some 4) EFECTIVO (Num 25000))) =
     [OpenTable 4 \<lparr>otr_guestCount = 1, otr_notes = None, otr_customerId = Some 3\<rparr>,
      AddItems 4 [\<lparr>tir_productId = 1, tir_quantity = 2, tir_unitPrice = 10000\<rparr>,
                  \<lparr>tir_productId = 2, tir_quantity = 1, tir_unitPrice = 5000\<rparr>],
      PayTable 4 \<lparr>ptr_paymentMethod = EFECTIVO, ptr_amountReceived = Num 25000,
                  ptr_discountPercent = Some 10, ptr_notes = None\<rparr>,
      GetInvoiceById 77,
      GetActiveProducts, GetActiveCategories, GetAllCustomers, GetAllTables] \<and>
   pp_requests (handleConfirmSale accepting (till (Some 5) EFECTIVO (Num 25000))) =
     [AddItems 5 [\<lparr>tir_productId = 1, tir_quantity = 2, tir_unitPrice = 10000\<rparr>,
                  \<lparr>tir_productId = 2, tir_quantity = 1, tir_unitPrice = 5000\<rparr>],
      PayTable 5 \<lparr>ptr_paymentMethod = EFECTIVO, ptr_amountReceived = Num 25000,
                  ptr_discountPercent = Some 10, ptr_notes = None\<rparr>,
      GetInvoiceById 77,
      GetActiveProducts, GetActiveCategories, GetAllCustomers, GetAllTables]"
proof -
  have bodies:
    "openRequest (till (Some 4) EFECTIVO (Num 25000)) =
       \<lparr>otr_guestCount = 1, otr_notes = None, otr_customerId = Some 3\<rparr>"
    "tableItems (cart_items demo_cart) =
       [\<lparr>tir_productId = 1, tir_quantity = 2, tir_unitPrice = 10000\<rparr>,
        \<lparr>tir_productId = 2, tir_quantity = 1, tir_unitPrice = 5000\<rparr>]"
    "payRequest (till sel EFECTIVO (Num 25000)) =
       \<lparr>ptr_paymentMethod = EFECTIVO, ptr_amountReceived = Num 25000,
        ptr_discountPercent = Some 10, ptr_notes = None\<rparr>" for sel
    by (simp_all add: openRequest_def tableItems_def payRequest_def demo_cart_def
        discountPercent_def)
  from checkout_request_sequence
         [where st = "till None EFECTIVO (Num 25000)" and srv = accepting
            and created = "demo_invoice 77" and full = "demo_invoice 77"]
  have a: "pp_requests (handleConfirmSale accepting (till None EFECTIVO (Num 25000))) =
     [CreateSale (saleRequest (till None EFECTIVO (Num 25000))), GetInvoiceById 77,
      GetActiveProducts, GetActiveCategories, GetAllCustomers]"
    by (simp add: catalogRequests_def)
  from checkout_request_sequence
         [where st = "till (Some 4) EFECTIVO (Num 25000)" and srv = accepting and tid = 4
            and t = table_4 and opened = "demo_session 4" and session = "demo_session 4"
            and paid = "demo_invoice 77" and full = "demo_invoice 77"]
  have b: "pp_requests (handleConfirmSale accepting (till (Some 4) EFECTIVO (Num 25000))) =
     [OpenTable 4 (openRequest (till (Some 4) EFECTIVO (Num 25000))),
      AddItems 4 (tableItems (cart_items demo_cart)),
      PayTable 4 (payRequest (till (Some 4) EFECTIVO (Num 25000))),
      GetInvoiceById 77,
      GetActiveProducts, GetActiveCategories, GetAllCustomers, GetAllTables]"
    by (simp add: catalogRequests_def)
  from checkout_request_sequence
         [where st = "till (Some 5) EFECTIVO (Num 25000)" and srv = accepting and tid = 5
            and t = table_5 and session = "demo_session 5"
            and paid = "demo_invoice 77" and full = "demo_invoice 77"]
  have c: "pp_requests (handleConfirmSale accepting (till (Some 5) EFECTIVO (Num 25000))) =
     [AddItems 5 (tableItems (cart_items demo_cart)),
      PayTable 5 (payRequest (till (Some 5) EFECTIVO (Num 25000))),
      GetInvoiceById 77,
      GetActiveProducts, GetActiveCategories, GetAllCustomers, GetAllTables]"
    by (simp add: catalogRequests_def)
  from a b c bodies show ?thesis
    by simp
qed

subsection \<open>After a successful checkout\<close>

text \<open>The requests a handler run has added to the log.\<close>

definition newRequests :: "pos_page \<Rightarrow> pos_page \<Rightarrow> api_request list" where
  "newRequests st st' = drop (length (pp_requests st)) (pp_requests st')"

text \<open>
  C5, as the code has it. After a successful checkout on any branch the cart is cleared,
  the payment modal is closed, the fetched invoice is handed to the confirmation modal, and
  the catalog (products, categories, customers) is requested again. On the two table
  branches the table selection is cleared and the table list is requested again as well. On
  the direct-sale branch the table selection is left as it is and the table list is not
  requested.
\<close>

theorem checkout_success_state:
  "(checkoutBranch st = Direct \<and>
    srv_createSale srv (saleRequest st) = Inr created \<and>
    srv_getInvoiceById srv (inv_id created) = Inr full \<longrightarrow>
      pp_cart (handleConfirmSale srv st) = clearCart (pp_cart st) \<and>
      pp_completedInvoice (handleConfirmSale srv st) = Some full \<and>
      pp_showInvoiceConfirmModal (handleConfirmSale srv st) \<and>
      \<not> pp_showPaymentModal (handleConfirmSale srv st) \<and>
      \<not> pp_processing (handleConfirmSale srv st) \<and>
      set catalogRequests \<subseteq> set (newRequests st (handleConfirmSale srv st)) \<and>
      pp_selectedTableId (handleConfirmSale srv st) = pp_selectedTableId st \<and>
      GetAllTables \<notin> set (newRequests st (handleConfirmSale srv st))) \<and>
   (checkoutBranch st = TableAvailable tid \<and>
    srv_openTable srv tid (openRequest st) = Inr opened \<and>
    srv_addItems srv tid (tableItems (cart_items (pp_cart st))) = Inr session \<and>
    srv_payTable srv tid (payRequest st) = Inr paid \<and>
    srv_getInvoiceById srv (inv_id paid) = Inr full \<longrightarrow>
      pp_cart (handleConfirmSale srv st) = clearCart (pp_cart st) \<and>
      pp_completedInvoice (handleConfirmSale srv st) = Some full \<and>
      pp_showInvoiceConfirmModal (handleConfirmSale srv st) \<and>
      \<not> pp_showPaymentModal (handleConfirmSale srv st) \<and>
      \<not> pp_processing (handleConfirmSale srv st) \<and>
      set catalogRequests \<subseteq> set (newRequests st (handleConfirmSale srv st)) \<and>
      pp_selectedTableId (handleConfirmSale srv st) = None \<and>
      GetAllTables \<in> set (newRequests st (handleConfirmSale srv st))) \<and>
   (checkoutBranch st = TableOccupied tid \<and>
    srv_addItems srv tid (tableItems (cart_items (pp_cart st))) = Inr session \<and>
    srv_payTable srv tid (payRequest st) = Inr paid \<and>
    srv_getInvoiceById srv (inv_id paid) = Inr full \<longrightarrow>
      pp_cart (handleConfirmSale srv st) = clearCart (pp_cart st) \<and>
      pp_completedInvoice (handleConfirmSale srv st) = Some full \<and>
      pp_showInvoiceConfirmModal (handleConfirmSale srv st) \<and>
      \<not> pp_showPaymentModal (handleConfirmSale srv st) \<and>
      \<not> pp_processing (handleConfirmSale srv st) \<and>
      set catalogRequests \<subseteq> set (newRequests st (handleConfirmSale srv st)) \<and>
      pp_selectedTableId (handleConfirmSale srv st) = None \<and>
      GetAllTables \<in> set (newRequests st (handleConfirmSale srv st))) \<and>
   cart_items (clearCart (pp_cart st)) = []"
proof -
  have direct: "checkoutBranch st = Direct \<and>
    srv_createSale srv (saleRequest st) = Inr created \<and>
    srv_getInvoiceById srv (inv_id created) = Inr full \<longrightarrow>
      pp_cart (handleConfirmSale srv st) = clearCart (pp_cart st) \<and>
      pp_completedInvoice (handleConfirmSale srv st) = Some full \<and>
      pp_showInvoiceConfirmModal (handleConfirmSale srv st) \<and>
      \<not> pp_showPaymentModal (handleConfirmSale srv st) \<and>
      \<not> pp_processing (handleConfirmSale srv st) \<and>
      set catalogRequests \<subseteq> set (newRequests st (handleConfirmSale srv st)) \<and>
      pp_selectedTableId (handleConfirmSale srv st) = pp_selectedTableId st \<and>
      GetAllTables \<notin> set (newRequests st (handleConfirmSale srv st))"
    using direct_checkout_state [of st srv created full]
    by (auto simp: newRequests_def catalogRequests_def)
  have available: "checkoutBranch st = TableAvailable tid \<and>
    srv_openTable srv tid (openRequest st) = Inr opened \<and>
    srv_addItems srv tid (tableItems (cart_items (pp_cart st))) = Inr session \<and>
    srv_payTable srv tid (payRequest st) = Inr paid \<and>
    srv_getInvoiceById srv (inv_id paid) = Inr full \<longrightarrow>
      pp_cart (handleConfirmSale srv st) = clearCart (pp_cart st) \<and>
      pp_completedInvoice (handleConfirmSale srv st) = Some full \<and>
      pp_showInvoiceConfirmModal (handleConfirmSale srv st) \<and>
      \<not> pp_showPaymentModal (handleConfirmSale srv st) \<and>
      \<not> pp_processing (handleConfirmSale srv st) \<and>
      set catalogRequests \<subseteq> set (newRequests st (handleConfirmSale srv st)) \<and>
      pp_selectedTableId (handleConfirmSale srv st) = None \<and>
      GetAllTables \<in> set (newRequests st (handleConfirmSale srv st))"
    using available_checkout_state [of st tid srv opened session paid full]
    by (auto simp: newRequests_def catalogRequests_def)
  have occupied: "checkoutBranch st = TableOccupied tid \<and>
    srv_addItems srv tid (tableItems (cart_items (pp_cart st))) = Inr session \<and>
    srv_payTable srv tid (payRequest st) = Inr paid \<and>
    srv_getInvoiceById srv (inv_id paid) = Inr full \<longrightarrow>
      pp_cart (handleConfirmSale srv st) = clearCart (pp_cart st) \<and>
      pp_completedInvoice (handleConfirmSale srv st) = Some full \<and>
      pp_showInvoiceConfirmModal (handleConfirmSale srv st) \<and>
      \<not> pp_showPaymentModal (handleConfirmSale srv st) \<and>
      \<not> pp_processing (handleConfirmSale srv st) \<and>
      set catalogRequests \<subseteq> set (newRequests st (handleConfirmSale srv st)) \<and>
      pp_selectedTableId (handleConfirmSale srv st) = None \<and>
      GetAllTables \<in> set (newRequests st (handleConfirmSale srv st))"
    using occupied_checkout_state [of st tid srv session paid full]
    by (auto simp: newRequests_def catalogRequests_def)
  have cleared: "cart_items (clearCart (pp_cart st)) = []"
    by (simp add: clearCart_def)
  from direct available occupied cleared show ?thesis
    by blast
qed

lemma demo_branches [simp]:
  "checkoutBranch (till None m amount) = Direct"
  "checkoutBranch (till (Some 4) m amount) = TableAvailable 4"
  "checkoutBranch (till (Some 5) m amount) = TableOccupied 5"
  by (simp_all add: checkoutBranch_def)

theorem checkout_success_state_witness:
  "cart_items (pp_cart (handleConfirmSale accepting (till None EFECTIVO (Num 25000)))) = [] \<and>
   pp_completedInvoice (handleConfirmSale accepting (till None EFECTIVO (Num 25000))) =
     Some (demo_invoice 77) \<and>
   pp_selectedTableId (handleConfirmSale accepting (till (Some 4) EFECTIVO (Num 25000))) = None \<and>
   GetAllTables \<in> set (newRequests (till (Some 4) EFECTIVO (Num 25000))
     (handleConfirmSale accepting (till (Some 4) EFECTIVO (Num 25000)))) \<and>
   pp_selectedTableId (handleConfirmSale accepting (till (Some 5) EFECTIVO (Num 25000))) = None \<and>
   GetAllTables \<in> set (newRequests (till (Some 5) EFECTIVO (Num 25000))
     (handleConfirmSale accepting (till (Some 5) EFECTIVO (Num 25000))))"
proof -
  from checkout_success_state
         [where st = "till None EFECTIVO (Num 25000)" and srv = accepting
            and created = "demo_invoice 77" and full = "demo_invoice 77"]
  have a: "cart_items (pp_cart (handleConfirmSale accepting (till None EFECTIVO (Num 25000)))) = [] \<and>
    pp_completedInvoice (handleConfirmSale accepting (till None EFECTIVO (Num 25000))) =
      Some (demo_invoice 77)"
    by simp
  from checkout_success_state
         [where st = "till (Some 4) EFECTIVO (Num 25000)" and srv = accepting and tid = 4
            and opened = "demo_session 4" and session = "demo_session 4"
            and paid = "demo_invoice 77" and full = "demo_invoice 77"]
  have b: "pp_selectedTableId (handleConfirmSale accepting (till (Some 4) EFECTIVO (Num 25000))) = None \<and>
    GetAllTables \<in> set (newRequests (till (Some 4) EFECTIVO (Num 25000))
      (handleConfirmSale accepting (till (Some 4) EFECTIVO (Num 25000))))"
    by simp
  from checkout_success_state
         [where st = "till (Some 5) EFECTIVO (Num 25000)" and srv = accepting and tid = 5
            and session = "demo_session 5"
            and paid = "demo_invoice 77" and full = "demo_invoice 77"]
  have c: "pp_selectedTableId (handleConfirmSale accepting (till (Some 5) EFECTIVO (Num 25000))) = None \<and>
    GetAllTables \<in> set (newRequests (till (Some 5) EFECTIVO (Num 25000))
      (handleConfirmSale accepting (till (Some 5) EFECTIVO (Num 25000))))"
    by simp
  from a b c show ?thesis
    by blast
qed

text \<open>
  The claim as the spec words it asks for the table list to be refetched on every successful
  branch. A successful direct sale completes, hands over the invoice, and requests the
  catalog only.
\<close>

theorem direct_sale_skips_tables_counterexample:
  "pp_completedInvoice (handleConfirmSale accepting (till None EFECTIVO (Num 25000))) =
     Some (demo_invoice 77) \<and>
   pp_requests (handleConfirmSale accepting (till None EFECTIVO (Num 25000))) =
     [CreateSale (saleRequest (till None EFECTIVO (Num 25000))), GetInvoiceById 77,
      GetActiveProducts, GetActiveCategories, GetAllCustomers] \<and>
   GetAllTables \<notin> set (pp_requests (handleConfirmSale accepting (till None EFECTIVO (Num 25000))))"
proof -
  have "handleConfirmSale accepting (till None EFECTIVO (Num 25000)) =
     (till None EFECTIVO (Num 25000))
       \<lparr>pp_cart := clearCart demo_cart,
        pp_showPaymentModal := False,
        pp_loading := True,
        pp_processing := False,
        pp_completedInvoice := Some (demo_invoice 77),
        pp_showInvoiceConfirmModal := True,
        pp_requests := [] @
          [CreateSale (saleRequest (till None EFECTIVO (Num 25000))), GetInvoiceById 77]
            @ catalogRequests\<rparr>"
    using direct_checkout_state
      [of "till None EFECTIVO (Num 25000)" accepting "demo_invoice 77" "demo_invoice 77"]
    by simp
  then show ?thesis
    by (simp add: catalogRequests_def)
qed

subsection \<open>When a call of the checkout is rejected\<close>

definition isCheckoutCall :: "api_request \<Rightarrow> bool" where
  "isCheckoutCall r =
     (case r of
        OpenTable tid body \<Rightarrow> True
      | AddItems tid body \<Rightarrow> True
      | PayTable tid body \<Rightarrow> True
      | CreateSale body \<Rightarrow> True
      | GetInvoiceById i \<Rightarrow> True
      | _ \<Rightarrow> False)"

definition readsTableState :: "api_request \<Rightarrow> bool" where
  "readsTableState r =
     (case r of
        GetAllTables \<Rightarrow> True
      | GetTableById tid \<Rightarrow> True
      | GetActiveSession tid \<Rightarrow> True
      | _ \<Rightarrow> False)"

text \<open>The error the \<open>catch\<close> block receives, if any call of the run is rejected.\<close>

definition checkoutError :: "server \<Rightarrow> pos_page \<Rightarrow> api_error option" where
  "checkoutError srv st = fst (trySale srv (st\<lparr>pp_processing := True\<rparr>))"

text \<open>A rejected step leaves the state as it was, with the calls made so far logged.\<close>

definition onlyLogged :: "pos_page \<Rightarrow> pos_page \<Rightarrow> bool" where
  "onlyLogged st st' =
     (\<exists>rs. st' = st\<lparr>pp_requests := pp_requests st @ rs\<rparr> \<and> rs \<noteq> [] \<and> list_all isCheckoutCall rs)"

lemma onlyLogged_issue:
  "isCheckoutCall r \<Longrightarrow> onlyLogged (issue r st) st' \<Longrightarrow> onlyLogged st st'"
proof -
  assume r: "isCheckoutCall r" and "onlyLogged (issue r st) st'"
  then obtain rs where rs: "st' = (issue r st)\<lparr>pp_requests := pp_requests (issue r st) @ rs\<rparr>"
    "list_all isCheckoutCall rs"
    by (auto simp: onlyLogged_def)
  then have "st' = st\<lparr>pp_requests := pp_requests st @ (r # rs)\<rparr>"
    by (simp add: issue_def)
  with r rs(2) show ?thesis
    unfolding onlyLogged_def by (intro exI [of _ "r # rs"]) simp
qed

lemma onlyLogged_one: "isCheckoutCall r \<Longrightarrow> onlyLogged st (issue r st)"
  unfolding onlyLogged_def by (intro exI [of _ "[r]"]) (simp add: issue_def)

lemma fetchInvoiceStep_failed:
  "fetchInvoiceStep srv done result st = (Some e, st') \<Longrightarrow> onlyLogged st st'"
  by (auto simp: fetchInvoiceStep_def isCheckoutCall_def Let_def intro: onlyLogged_one
      split: sum.splits)

lemma payStep_failed:
  assumes "payStep srv st0 tid st = (Some e, st')"
  shows "onlyLogged st st'"
proof (cases "srv_payTable srv tid (payRequest st0)")
  case (Inl err)
  with assms have "st' = issue (PayTable tid (payRequest st0)) st"
    by (simp add: payStep_def)
  then show ?thesis
    by (simp add: onlyLogged_one isCheckoutCall_def)
next
  case (Inr result)
  with assms have "fetchInvoiceStep srv tableSaleDone result
      (issue (PayTable tid (payRequest st0)) st) = (Some e, st')"
    by (simp add: payStep_def)
  then have "onlyLogged (issue (PayTable tid (payRequest st0)) st) st'"
    by (rule fetchInvoiceStep_failed)
  then show ?thesis
    by (rule onlyLogged_issue [rotated]) (simp add: isCheckoutCall_def)
qed

lemma addItemsStep_failed:
  assumes "addItemsStep srv st0 tid st = (Some e, st')"
  shows "onlyLogged st st'"
proof (cases "srv_addItems srv tid (tableItems (cart_items (pp_cart st0)))")
  case (Inl err)
  with assms have "st' = issue (AddItems tid (tableItems (cart_items (pp_cart st0)))) st"
    by (simp add: addItemsStep_def)
  then show ?thesis
    by (simp add: onlyLogged_one isCheckoutCall_def)
next
  case (Inr session)
  with assms have "payStep srv st0 tid
      (issue (AddItems tid (tableItems (cart_items (pp_cart st0)))) st) = (Some e, st')"
    by (simp add: addItemsStep_def)
  then have "onlyLogged (issue (AddItems tid (tableItems (cart_items (pp_cart st0)))) st) st'"
    by (rule payStep_failed)
  then show ?thesis
    by (rule onlyLogged_issue [rotated]) (simp add: isCheckoutCall_def)
qed

lemma openStep_failed:
  assumes "openStep srv st0 tid st = (Some e, st')"
  shows "onlyLogged st st'"
proof (cases "srv_openTable srv tid (openRequest st0)")
  case (Inl err)
  with assms have "st' = issue (OpenTable tid (openRequest st0)) st"
    by (simp add: openStep_def)
  then show ?thesis
    by (simp add: onlyLogged_one isCheckoutCall_def)
next
  case (Inr session)
  with assms have "addItemsStep srv st0 tid (issue (OpenTable tid (openRequest st0)) st) = (Some e, st')"
    by (simp add: openStep_def)
  then have "onlyLogged (issue (OpenTable tid (openRequest st0)) st) st'"
    by (rule addItemsStep_failed)
  then show ?thesis
    by (rule onlyLogged_issue [rotated]) (simp add: isCheckoutCall_def)
qed

lemma directSale_failed:
  assumes "directSale srv st0 st = (Some e, st')"
  shows "onlyLogged st st'"
proof (cases "srv_createSale srv (saleRequest st0)")
  case (Inl err)
  with assms have "st' = issue (CreateSale (saleRequest st0)) st"
    by (simp add: directSale_def)
  then show ?thesis
    by (simp add: onlyLogged_one isCheckoutCall_def)
next
  case (Inr result)
  with assms have "fetchInvoiceStep srv directSaleDone result
      (issue (CreateSale (saleRequest st0)) st) = (Some e, st')"
    by (simp add: directSale_def)
  then have "onlyLogged (issue (CreateSale (saleRequest st0)) st) st'"
    by (rule fetchInvoiceStep_failed)
  then show ?thesis
    by (rule onlyLogged_issue [rotated]) (simp add: isCheckoutCall_def)
qed

lemma trySale_failed: "trySale srv st = (Some e, st') \<Longrightarrow> onlyLogged st st'"
  by (auto simp: trySale_def split: branch.splits
      dest: openStep_failed addItemsStep_failed directSale_failed)

lemma checkout_call_is_no_read: "isCheckoutCall r \<Longrightarrow> \<not> readsTableState r"
  by (cases r) (simp_all add: isCheckoutCall_def readsTableState_def)

lemma failed_checkout_state:
  assumes "checkoutError srv st = Some e"
  shows "\<exists>rs. handleConfirmSale srv st =
           st\<lparr>pp_processing := False,
              pp_toasts := pp_toasts st @ [ToastError (errorMessage e ''Error al procesar la venta'')],
              pp_requests := pp_requests st @ rs\<rparr> \<and>
         rs \<noteq> [] \<and> list_all isCheckoutCall rs"
proof -
  obtain st1 where t: "trySale srv (st\<lparr>pp_processing := True\<rparr>) = (Some e, st1)"
    using assms by (cases "trySale srv (st\<lparr>pp_processing := True\<rparr>)") (simp add: checkoutError_def)
  then have "onlyLogged (st\<lparr>pp_processing := True\<rparr>) st1"
    by (rule trySale_failed)
  then obtain rs where rs: "st1 = st\<lparr>pp_processing := True, pp_requests := pp_requests st @ rs\<rparr>"
    "rs \<noteq> []" "list_all isCheckoutCall rs"
    by (auto simp: onlyLogged_def)
  from t rs(1) have "handleConfirmSale srv st =
           st\<lparr>pp_processing := False,
              pp_toasts := pp_toasts st @ [ToastError (errorMessage e ''Error al procesar la venta'')],
              pp_requests := pp_requests st @ rs\<rparr>"
    by (simp add: handleConfirmSale_def saleFailed_def)
  with rs(2,3) show ?thesis
    by blast
qed

text \<open>
  C6, as the code has it. When a call of the checkout is rejected, the \<open>catch\<close> block shows
  an error toast (the server's message, or the generic one) and the \<open>finally\<close> block lowers
  the processing flag. Nothing else happens: the requests of the run are the checkout calls
  made up to the rejected one, so no request reads the table's state and none undoes an
  earlier step, and the cart, the table selection, the fetched table list, the payment modal
  and the confirmation modal are as they were before the attempt.
\<close>

theorem checkout_failure_state:
  "checkoutError srv st = Some e \<longrightarrow>
     pp_toasts (handleConfirmSale srv st) =
       pp_toasts st @ [ToastError (errorMessage e ''Error al procesar la venta'')] \<and>
     \<not> pp_processing (handleConfirmSale srv st) \<and>
     newRequests st (handleConfirmSale srv st) \<noteq> [] \<and>
     list_all isCheckoutCall (newRequests st (handleConfirmSale srv st)) \<and>
     \<not> list_ex readsTableState (newRequests st (handleConfirmSale srv st)) \<and>
     pp_cart (handleConfirmSale srv st) = pp_cart st \<and>
     pp_selectedTableId (handleConfirmSale srv st) = pp_selectedTableId st \<and>
     pp_tables (handleConfirmSale srv st) = pp_tables st \<and>
     pp_showPaymentModal (handleConfirmSale srv st) = pp_showPaymentModal st \<and>
     pp_completedInvoice (handleConfirmSale srv st) = pp_completedInvoice st \<and>
     pp_showInvoiceConfirmModal (handleConfirmSale srv st) = pp_showInvoiceConfirmModal st"
proof
  assume "checkoutError srv st = Some e"
  then obtain rs where st': "handleConfirmSale srv st =
           st\<lparr>pp_processing := False,
              pp_toasts := pp_toasts st @ [ToastError (errorMessage e ''Error al procesar la venta'')],
              pp_requests := pp_requests st @ rs\<rparr>"
    and rs: "rs \<noteq> []" "list_all isCheckoutCall rs"
    using failed_checkout_state by blast
  from rs(2) have "\<not> list_ex readsTableState rs"
    by (auto simp: list_all_iff list_ex_iff dest: checkout_call_is_no_read)
  with st' rs show "pp_toasts (handleConfirmSale srv st) =
       pp_toasts st @ [ToastError (errorMessage e ''Error al procesar la venta'')] \<and>
     \<not> pp_processing (handleConfirmSale srv st) \<and>
     newRequests st (handleConfirmSale srv st) \<noteq> [] \<and>
     list_all isCheckoutCall (newRequests st (handleConfirmSale srv st)) \<and>
     \<not> list_ex readsTableState (newRequests st (handleConfirmSale srv st)) \<and>
     pp_cart (handleConfirmSale srv st) = pp_cart st \<and>
     pp_selectedTableId (handleConfirmSale srv st) = pp_selectedTableId st \<and>
     pp_tables (handleConfirmSale srv st) = pp_tables st \<and>
     pp_showPaymentModal (handleConfirmSale srv st) = pp_showPaymentModal st \<and>
     pp_completedInvoice (handleConfirmSale srv st) = pp_completedInvoice st \<and>
     pp_showInvoiceConfirmModal (handleConfirmSale srv st) = pp_showInvoiceConfirmModal st"
    by (simp add: newRequests_def)
qed

text \<open>
  Table 4 is free; the server opens it and then rejects the items for lack of stock. The
  table is now open on the server, and the page still lists it as it was fetched.
\<close>

definition rejectingItems :: server where
  "rejectingItems = accepting\<lparr>srv_addItems := (\<lambda>tid body. Inl rejected)\<rparr>"

lemma rejectingItems_run:
  "trySale rejectingItems ((till (Some 4) EFECTIVO (Num 25000))\<lparr>pp_processing := True\<rparr>) =
     (Some rejected,
      (till (Some 4) EFECTIVO (Num 25000))
        \<lparr>pp_processing := True,
         pp_requests :=
           [OpenTable 4 \<lparr>otr_guestCount = 1, otr_notes = None, otr_customerId = Some 3\<rparr>,
            AddItems 4 [\<lparr>tir_productId = 1, tir_quantity = 2, tir_unitPrice = 10000\<rparr>,
                        \<lparr>tir_productId = 2, tir_quantity = 1, tir_unitPrice = 5000\<rparr>]]\<rparr>)"
  by (simp add: trySale_def openStep_def addItemsStep_def issue_def rejectingItems_def
      accepting_def openRequest_def tableItems_def demo_cart_def Let_def)

theorem checkout_failure_state_witness:
  "checkoutError rejectingItems (till (Some 4) EFECTIVO (Num 25000)) = Some rejected \<and>
   pp_toasts (handleConfirmSale rejectingItems (till (Some 4) EFECTIVO (Num 25000))) =
     [ToastError ''Stock insuficiente''] \<and>
   \<not> list_ex readsTableState
       (newRequests (till (Some 4) EFECTIVO (Num 25000))
          (handleConfirmSale rejectingItems (till (Some 4) EFECTIVO (Num 25000)))) \<and>
   pp_cart (handleConfirmSale rejectingItems (till (Some 4) EFECTIVO (Num 25000))) = demo_cart \<and>
   pp_selectedTableId (handleConfirmSale rejectingItems (till (Some 4) EFECTIVO (Num 25000))) = Some 4"
proof -
  have failed: "checkoutError rejectingItems (till (Some 4) EFECTIVO (Num 25000)) = Some rejected"
    by (simp add: checkoutError_def rejectingItems_run)
  from checkout_failure_state
         [where srv = rejectingItems and st = "till (Some 4) EFECTIVO (Num 25000)" and e = rejected]
       failed
  show ?thesis
    by (simp add: rejected_def)
qed

text \<open>
  The claim as the spec words it has the client re-fetch the table's state after a failure
  in the middle of the sequence. On the run above the page sends the two calls and nothing
  after them, and keeps the table list it had: table 4 is still shown as DISPONIBLE.
\<close>

theorem no_refetch_after_failure_counterexample:
  "pp_requests (handleConfirmSale rejectingItems (till (Some 4) EFECTIVO (Num 25000))) =
     [OpenTable 4 \<lparr>otr_guestCount = 1, otr_notes = None, otr_customerId = Some 3\<rparr>,
      AddItems 4 [\<lparr>tir_productId = 1, tir_quantity = 2, tir_unitPrice = 10000\<rparr>,
                  \<lparr>tir_productId = 2, tir_quantity = 1, tir_unitPrice = 5000\<rparr>]] \<and>
   \<not> list_ex readsTableState
       (pp_requests (handleConfirmSale rejectingItems (till (Some 4) EFECTIVO (Num 25000)))) \<and>
   pp_toasts (handleConfirmSale rejectingItems (till (Some 4) EFECTIVO (Num 25000))) =
     [ToastError ''Stock insuficiente''] \<and>
   pp_tables (handleConfirmSale rejectingItems (till (Some 4) EFECTIVO (Num 25000))) =
     [table_4, table_5] \<and>
   tbl_status table_4 = DISPONIBLE"
  by (simp add: handleConfirmSale_def rejectingItems_run saleFailed_def rejected_def
      readsTableState_def demo_tables_def table_4_def)

subsection \<open>The totals of the cart\<close>

lemma clampTo_bounds: "lo \<le> hi \<Longrightarrow> lo \<le> clampTo lo hi x \<and> clampTo lo hi x \<le> hi"
  by (simp add: clampTo_def)

lemma subtotal_nonneg:
  "\<forall>i \<in> set items. 0 \<le> item_price i \<and> 0 \<le> item_quantity i \<Longrightarrow>
   0 \<le> (\<Sum>i\<leftarrow>items. item_price i * of_int (item_quantity i))"
  by (induction items) simp_all

text \<open>
  C1. The totals are the spec's formulas: the subtotal is the sum of price times quantity
  over the lines, the discount is the percentage of the subtotal or the plain value, clamped
  between 0 and the subtotal, the total is the subtotal minus the discount, and the item
  count is the sum of the quantities. For a cart whose lines have no negative price or
  quantity, and for either kind of discount and any value of it, the discount lies between 0
  and the subtotal and the total is not negative. The cart with 10000 twice, 5000 once and
  10 percent has subtotal 25000, discount 2500, total 22500 and 3 items.
\<close>

theorem cart_totals:
  "tot_subtotal (selectCartTotal c) =
     (\<Sum>i\<leftarrow>cart_items c. item_price i * of_int (item_quantity i)) \<and>
   tot_discountAmount (selectCartTotal c) =
     clampTo 0 (tot_subtotal (selectCartTotal c))
       (if cart_discountType c = Percent
        then tot_subtotal (selectCartTotal c) * cart_discount c / 100 else cart_discount c) \<and>
   tot_total (selectCartTotal c) =
     tot_subtotal (selectCartTotal c) - tot_discountAmount (selectCartTotal c) \<and>
   tot_itemCount (selectCartTotal c) = (\<Sum>i\<leftarrow>cart_items c. item_quantity i) \<and>
   ((\<forall>i \<in> set (cart_items c). 0 \<le> item_price i \<and> 0 \<le> item_quantity i) \<longrightarrow>
      0 \<le> tot_discountAmount (selectCartTotal c) \<and>
      tot_discountAmount (selectCartTotal c) \<le> tot_subtotal (selectCartTotal c) \<and>
      0 \<le> tot_total (selectCartTotal c)) \<and>
   selectCartTotal demo_cart =
     \<lparr>tot_subtotal = 25000, tot_discountAmount = 2500, tot_total = 22500, tot_itemCount = 3\<rparr>"
proof -
  have formulas: "tot_subtotal (selectCartTotal c) =
     (\<Sum>i\<leftarrow>cart_items c. item_price i * of_int (item_quantity i)) \<and>
   tot_discountAmount (selectCartTotal c) =
     clampTo 0 (tot_subtotal (selectCartTotal c))
       (if cart_discountType c = Percent
        then tot_subtotal (selectCartTotal c) * cart_discount c / 100 else cart_discount c) \<and>
   tot_total (selectCartTotal c) =
     tot_subtotal (selectCartTotal c) - tot_discountAmount (selectCartTotal c) \<and>
   tot_itemCount (selectCartTotal c) = (\<Sum>i\<leftarrow>cart_items c. item_quantity i)"
    by (simp add: selectCartTotal_def rawDiscount_def Let_def)
  have bounds: "0 \<le> tot_discountAmount (selectCartTotal c) \<and>
      tot_discountAmount (selectCartTotal c) \<le> tot_subtotal (selectCartTotal c) \<and>
      0 \<le> tot_total (selectCartTotal c)"
    if wf: "\<forall>i \<in> set (cart_items c). 0 \<le> item_price i \<and> 0 \<le> item_quantity i"
  proof -
    from wf have "0 \<le> tot_subtotal (selectCartTotal c)"
      using subtotal_nonneg [of "cart_items c"] by (simp add: selectCartTotal_def Let_def)
    then have "0 \<le> tot_discountAmount (selectCartTotal c) \<and>
      tot_discountAmount (selectCartTotal c) \<le> tot_subtotal (selectCartTotal c)"
      using clampTo_bounds [of 0 "tot_subtotal (selectCartTotal c)"]
      by (simp add: selectCartTotal_def Let_def)
    with formulas show ?thesis
      by simp
  qed
  have scenario: "selectCartTotal demo_cart =
     \<lparr>tot_subtotal = 25000, tot_discountAmount = 2500, tot_total = 22500, tot_itemCount = 3\<rparr>"
    by (simp add: selectCartTotal_def demo_cart_def rawDiscount_def clampTo_def Let_def)
  from formulas bounds scenario show ?thesis
    by blast
qed

text \<open>
  A discount of 30000 as a plain amount on the same lines is clamped to the subtotal, and
  the total is 0.
\<close>

theorem cart_totals_witness:
  "list_all (\<lambda>i. 0 \<le> item_price i \<and> 0 \<le> item_quantity i)
     (cart_items (demo_cart\<lparr>cart_discount := 30000, cart_discountType := Amount\<rparr>)) \<and>
   tot_subtotal (selectCartTotal (demo_cart\<lparr>cart_discount := 30000, cart_discountType := Amount\<rparr>))
     = 25000 \<and>
   tot_discountAmount (selectCartTotal (demo_cart\<lparr>cart_discount := 30000, cart_discountType := Amount\<rparr>))
     = 25000 \<and>
   0 \<le> tot_total (selectCartTotal (demo_cart\<lparr>cart_discount := 30000, cart_discountType := Amount\<rparr>))"
proof -
  have wf: "list_all (\<lambda>i. 0 \<le> item_price i \<and> 0 \<le> item_quantity i)
      (cart_items (demo_cart\<lparr>cart_discount := 30000, cart_discountType := Amount\<rparr>))"
    by (simp add: demo_cart_def)
  then have wf': "\<forall>i \<in> set (cart_items (demo_cart\<lparr>cart_discount := 30000, cart_discountType := Amount\<rparr>)).
      0 \<le> item_price i \<and> 0 \<le> item_quantity i"
    by (simp only: list_all_iff)
  have items: "(\<Sum>i\<leftarrow>cart_items (demo_cart\<lparr>cart_discount := 30000, cart_discountType := Amount\<rparr>).
      item_price i * of_int (item_quantity i)) = 25000"
    by (simp add: demo_cart_def)
  from cart_totals [of "demo_cart\<lparr>cart_discount := 30000, cart_discountType := Amount\<rparr>"] wf' items
  have "tot_subtotal (selectCartTotal (demo_cart\<lparr>cart_discount := 30000, cart_discountType := Amount\<rparr>))
     = 25000 \<and>
   tot_discountAmount (selectCartTotal (demo_cart\<lparr>cart_discount := 30000, cart_discountType := Amount\<rparr>))
     = 25000 \<and>
   0 \<le> tot_total (selectCartTotal (demo_cart\<lparr>cart_discount := 30000, cart_discountType := Amount\<rparr>))"
    by (simp add: clampTo_def)
  with wf show ?thesis
    by blast
qed

subsection \<open>The cash check of the payment modal\<close>

lemma cash_below_total_is_blocked:
  "pp_paymentMethod st = EFECTIVO \<Longrightarrow> pp_amountReceived st = Num a \<Longrightarrow>
   a < tot_total (selectCartTotal (pp_cart st)) \<Longrightarrow>
   confirmDisabled st \<and> confirmClick srv st = st"
  by (simp add: confirmDisabled_def confirmClick_def)

lemma card_amount_is_total:
  "cart_items (pp_cart st) \<noteq> [] \<Longrightarrow>
   pp_amountReceived (setAmountReceived typed (paymentButtonClick TARJETA_CREDITO st)) =
     Num (tot_total (selectCartTotal (pp_cart st)))"
  by (simp add: paymentButtonClick_def setAmountReceived_def)

text \<open>A cart of one line of 20000, no discount, no table; the cashier presses "Efectivo".\<close>

definition cart_20000 :: cart where
  "cart_20000 =
     \<lparr>cart_items = [\<lparr>item_id = 1, item_code = ''A'', item_name = ''Producto A'',
                     item_price = 20000, item_quantity = 1\<rparr>],
      cart_customerId = None, cart_customerName = ''Cliente General'', cart_discount = 0,
      cart_discountType = Percent, cart_notes = []\<rparr>"

definition cash_till :: "number \<Rightarrow> pos_page" where
  "cash_till amount = (till None EFECTIVO amount)\<lparr>pp_cart := cart_20000\<rparr>"

definition idle_till :: pos_page where
  "idle_till = (cash_till NaN)\<lparr>pp_showPaymentModal := False\<rparr>"

lemma total_20000: "tot_total (selectCartTotal cart_20000) = 20000"
  by (simp add: selectCartTotal_def cart_20000_def rawDiscount_def clampTo_def Let_def)

text \<open>
  C3, evaluated. With 19999 typed against a total of 20000 the confirm button is disabled and
  a click on it sends nothing. With the amount field emptied, \<open>parseFloat\<close> gives \<open>NaN\<close>:
  \<open>NaN < total\<close> is false, so the button is enabled although \<open>amountReceived >= total\<close> does
  not hold (the change line, which tests \<open>>= total\<close>, is hidden), and the click sends the
  sale with \<open>amountReceived\<close> \<open>NaN\<close>.
\<close>

theorem empty_cash_amount_is_submitted:
  "setAmountReceived (Num 19999) (paymentButtonClick EFECTIVO idle_till) = cash_till (Num 19999) \<and>
   confirmDisabled (cash_till (Num 19999)) \<and>
   pp_requests (confirmClick accepting (cash_till (Num 19999))) = [] \<and>
   setAmountReceived NaN (paymentButtonClick EFECTIVO idle_till) = cash_till NaN \<and>
   \<not> js_greater_eq (pp_amountReceived (cash_till NaN)) (tot_total (selectCartTotal cart_20000)) \<and>
   \<not> changeShown (cash_till NaN) \<and>
   \<not> confirmDisabled (cash_till NaN) \<and>
   pp_requests (confirmClick accepting (cash_till NaN)) =
     [CreateSale \<lparr>sr_customerId = None, sr_paymentMethod = EFECTIVO, sr_discountPercent = 0,
                  sr_amountReceived = NaN, sr_notes = [],
                  sr_details = [\<lparr>sd_productId = 1, sd_quantity = 1, sd_unitPrice = 20000,
                                 sd_discountAmount = 0\<rparr>]\<rparr>,
      GetInvoiceById 77, GetActiveProducts, GetActiveCategories, GetAllCustomers]"
proof -
  have typed: "setAmountReceived n (paymentButtonClick EFECTIVO idle_till) = cash_till n" for n
    by (simp add: setAmountReceived_def paymentButtonClick_def idle_till_def cash_till_def
        till_def cart_20000_def)
  have blocked: "confirmDisabled (cash_till (Num 19999)) \<and>
      pp_requests (confirmClick accepting (cash_till (Num 19999))) = []"
    by (simp add: confirmDisabled_def confirmClick_def cash_till_def total_20000)
  have enabled: "\<not> js_greater_eq (pp_amountReceived (cash_till NaN)) (tot_total (selectCartTotal cart_20000)) \<and>
      \<not> changeShown (cash_till NaN) \<and> \<not> confirmDisabled (cash_till NaN)"
    by (simp add: confirmDisabled_def changeShown_def cash_till_def)
  have branch: "checkoutBranch (cash_till NaN) = Direct"
    by (simp add: checkoutBranch_def cash_till_def)
  have body: "saleRequest (cash_till NaN) =
      \<lparr>sr_customerId = None, sr_paymentMethod = EFECTIVO, sr_discountPercent = 0,
       sr_amountReceived = NaN, sr_notes = [],
       sr_details = [\<lparr>sd_productId = 1, sd_quantity = 1, sd_unitPrice = 20000,
                      sd_discountAmount = 0\<rparr>]\<rparr>"
    by (simp add: saleRequest_def cash_till_def cart_20000_def discountPercent_def)
  have "pp_requests (handleConfirmSale accepting (cash_till NaN)) =
      pp_requests (cash_till NaN) @
        [CreateSale (saleRequest (cash_till NaN)), GetInvoiceById 77] @ catalogRequests"
    using direct_checkout_state [OF branch, of accepting "demo_invoice 77" "demo_invoice 77"]
    by simp
  with enabled body have sent: "pp_requests (confirmClick accepting (cash_till NaN)) =
     [CreateSale \<lparr>sr_customerId = None, sr_paymentMethod = EFECTIVO, sr_discountPercent = 0,
                  sr_amountReceived = NaN, sr_notes = [],
                  sr_details = [\<lparr>sd_productId = 1, sd_quantity = 1, sd_unitPrice = 20000,
                                 sd_discountAmount = 0\<rparr>]\<rparr>,
      GetInvoiceById 77, GetActiveProducts, GetActiveCategories, GetAllCustomers]"
    by (simp add: confirmClick_def catalogRequests_def cash_till_def)
  from typed [of "Num 19999"] typed [of NaN] blocked enabled sent show ?thesis
    by blast
qed

section \<open>TablesPage.tsx: the handlers of the table operations\<close>

text \<open>
  A numeric form field, represented by what the page does with its text: \<open>Blank\<close> for the
  empty text, \<open>IntText n\<close> for a text from which \<open>parseInt\<close> reads \<open>n\<close>, \<open>NotInt\<close> for any
  other text.
\<close>

datatype int_text = Blank | NotInt | IntText int

record tables_page =
  tp_tables :: "restaurant_table list"
  tp_selectedTable :: "restaurant_table option"
  tp_activeSession :: "table_session option"
  tp_showOpenModal :: bool
  tp_showAddItemsModal :: bool
  tp_showPayModal :: bool
  tp_showCreateTableModal :: bool
  tp_guestCount :: int
  tp_tableNotes :: string
  tp_searchTerm :: string
  tp_itemsToAdd :: "draft_item list"
  tp_paymentMethod :: payment_method
  tp_amountReceived :: number
  tp_processing :: bool
  tp_newTableNumber :: int_text
  tp_newTableName :: string
  tp_newTableCapacity :: int_text
  tp_newTableZone :: string
  tp_toasts :: "toast list"
  tp_requests :: "api_request list"

definition tp_issue :: "api_request \<Rightarrow> tables_page \<Rightarrow> tables_page" where
  "tp_issue r st = st\<lparr>tp_requests := tp_requests st @ [r]\<rparr>"

definition tp_toast :: "toast \<Rightarrow> tables_page \<Rightarrow> tables_page" where
  "tp_toast t st = st\<lparr>tp_toasts := tp_toasts st @ [t]\<rparr>"

text \<open>
  \<open>fetchTables\<close> of this page, awaited by the handlers: it requests the whole list and puts
  the answer in place of the list held (\<open>Array.isArray(res) ? res : []\<close>; \<open>None\<close> is an
  answer that is not an array). It catches its own error.
\<close>

definition tp_fetchTables :: "server \<Rightarrow> tables_page \<Rightarrow> tables_page" where
  "tp_fetchTables srv st =
     (let st1 = tp_issue GetAllTables st
      in case srv_getAllTables srv of
           Inr (Some res) \<Rightarrow> st1\<lparr>tp_tables := res\<rparr>
         | Inr None \<Rightarrow> st1\<lparr>tp_tables := []\<rparr>
         | Inl e \<Rightarrow> tp_toast (ToastError ''Error al cargar mesas'') st1)"

definition handleOpenTable :: "server \<Rightarrow> tables_page \<Rightarrow> tables_page" where
  "handleOpenTable srv st =
     (case tp_selectedTable st of
        None \<Rightarrow> st
      | Some sel \<Rightarrow>
          (let request = \<lparr>otr_guestCount = tp_guestCount st,
                          otr_notes = (if tp_tableNotes st = [] then None else Some (tp_tableNotes st)),
                          otr_customerId = None\<rparr>;
               st1 = tp_issue (OpenTable (tbl_id sel) request) (st\<lparr>tp_processing := True\<rparr>)
           in (case srv_openTable srv (tbl_id sel) request of
                 Inl e \<Rightarrow> tp_toast (ToastError (errorMessage e ''Error al abrir mesa'')) st1
               | Inr res \<Rightarrow>
                   (let st2 = tp_fetchTables srv
                                ((tp_toast (ToastTableOpened (tbl_tableNumber sel))
                                    (st1\<lparr>tp_activeSession := Some res\<rparr>))
                                 \<lparr>tp_showOpenModal := False, tp_guestCount := 1, tp_tableNotes := []\<rparr>);
                        st3 = tp_issue (GetTableById (tbl_id sel)) st2
                    in case srv_getTableById srv (tbl_id sel) of
                         Inl e \<Rightarrow> tp_toast (ToastError (errorMessage e ''Error al abrir mesa'')) st3
                       | Inr updated \<Rightarrow> st3\<lparr>tp_selectedTable := Some updated\<rparr>))
              \<lparr>tp_processing := False\<rparr>))"

definition draftItems :: "draft_item list \<Rightarrow> table_item_request list" where
  "draftItems items =
     map (\<lambda>i. \<lparr>tir_productId = prod_id (di_product i), tir_quantity = di_quantity i,
                tir_unitPrice = prod_salePrice (di_product i)\<rparr>) items"

definition handleAddItems :: "server \<Rightarrow> tables_page \<Rightarrow> tables_page" where
  "handleAddItems srv st =
     (case tp_selectedTable st of
        None \<Rightarrow> st
      | Some sel \<Rightarrow>
          if tp_itemsToAdd st = [] then st
          else
            (let request = draftItems (tp_itemsToAdd st);
                 st1 = tp_issue (AddItems (tbl_id sel) request) (st\<lparr>tp_processing := True\<rparr>)
             in (case srv_addItems srv (tbl_id sel) request of
                   Inl e \<Rightarrow> tp_toast (ToastError (errorMessage e ''Error al agregar productos'')) st1
                 | Inr res \<Rightarrow>
                     tp_fetchTables srv
                       ((tp_toast (ToastItemsAdded (length (tp_itemsToAdd st)))
                           (st1\<lparr>tp_activeSession := Some res\<rparr>))
                        \<lparr>tp_showAddItemsModal := False, tp_itemsToAdd := [], tp_searchTerm := []\<rparr>))
                \<lparr>tp_processing := False\<rparr>))"

definition handleRemoveItem :: "server \<Rightarrow> nat \<Rightarrow> tables_page \<Rightarrow> tables_page" where
  "handleRemoveItem srv detailId st =
     (case tp_selectedTable st of
        None \<Rightarrow> st
      | Some sel \<Rightarrow>
          (let st1 = tp_issue (RemoveItem (tbl_id sel) detailId) st
           in case srv_removeItem srv (tbl_id sel) detailId of
                Inl e \<Rightarrow> tp_toast (ToastError (errorMessage e ''Error al eliminar producto'')) st1
              | Inr res \<Rightarrow>
                  tp_fetchTables srv
                    (tp_toast (ToastSuccess ''Producto eliminado'')
                       (st1\<lparr>tp_activeSession := Some res\<rparr>))))"

definition handlePayTable :: "server \<Rightarrow> tables_page \<Rightarrow> tables_page" where
  "handlePayTable srv st =
     (case tp_selectedTable st of
        None \<Rightarrow> st
      | Some sel \<Rightarrow>
          (case tp_activeSession st of
             None \<Rightarrow> st
           | Some current \<Rightarrow>
               (let request = \<lparr>ptr_paymentMethod = tp_paymentMethod st,
                               ptr_amountReceived = tp_amountReceived st,
                               ptr_discountPercent = None, ptr_notes = None\<rparr>;
                    st1 = tp_issue (PayTable (tbl_id sel) request) (st\<lparr>tp_processing := True\<rparr>)
                in (case srv_payTable srv (tbl_id sel) request of
                      Inl e \<Rightarrow> tp_toast (ToastError (errorMessage e ''Error al pagar mesa'')) st1
                    | Inr paid \<Rightarrow>
                        tp_fetchTables srv
                          ((tp_toast (ToastTablePaid (tbl_tableNumber sel)) st1)
                           \<lparr>tp_showPayModal := False, tp_amountReceived := NaN,
                            tp_selectedTable := None, tp_activeSession := None\<rparr>))
                   \<lparr>tp_processing := False\<rparr>)))"

text \<open>
  \<open>handleCreateTable\<close>: \<open>parseInt(newTableNumber)\<close>, \<open>newTableName || undefined\<close>,
  \<open>parseInt(newTableCapacity) || 4\<close>. A table number that does not parse is \<open>NaN\<close>, here
  \<open>None\<close>.
\<close>

definition parsedOr :: "int_text \<Rightarrow> int \<Rightarrow> int" where
  "parsedOr t d = (case t of IntText n \<Rightarrow> (if n = 0 then d else n) | _ \<Rightarrow> d)"

definition handleCreateTable :: "server \<Rightarrow> tables_page \<Rightarrow> tables_page" where
  "handleCreateTable srv st =
     (if tp_newTableNumber st = Blank then st
      else
        (let request = \<lparr>ctr_tableNumber = (case tp_newTableNumber st of IntText n \<Rightarrow> Some n | _ \<Rightarrow> None),
                        ctr_name = (if tp_newTableName st = [] then None else Some (tp_newTableName st)),
                        ctr_capacity = parsedOr (tp_newTableCapacity st) 4,
                        ctr_zone = tp_newTableZone st\<rparr>;
             st1 = tp_issue (CreateTable request) (st\<lparr>tp_processing := True\<rparr>)
         in (case srv_createTable srv request of
               Inl e \<Rightarrow> tp_toast (ToastError (errorMessage e ''Error al crear mesa'')) st1
             | Inr created \<Rightarrow>
                 tp_fetchTables srv
                   ((tp_toast (ToastSuccess ''Mesa creada exitosamente'') st1)
                    \<lparr>tp_showCreateTableModal := False, tp_newTableNumber := Blank,
                     tp_newTableName := [], tp_newTableCapacity := IntText 4,
                     tp_newTableZone := ''INTERIOR''\<rparr>))
            \<lparr>tp_processing := False\<rparr>))"

text \<open>
  The "Marcar como Disponible" button:
  \<open>changeStatus(id, 'DISPONIBLE').then(() => { fetchTables(); setSelectedTable(null) })\<close>.
  A rejection is not handled. \<open>fetchTables\<close> is not awaited here; nothing but the clearing of
  the selection runs before its answer, so the state once the answer is in is the same.
\<close>

definition markAvailable :: "server \<Rightarrow> tables_page \<Rightarrow> tables_page" where
  "markAvailable srv st =
     (case tp_selectedTable st of
        None \<Rightarrow> st
      | Some sel \<Rightarrow>
          (let st1 = tp_issue (ChangeStatus (tbl_id sel) DISPONIBLE) st
           in case srv_changeStatus srv (tbl_id sel) DISPONIBLE of
                Inl e \<Rightarrow> st1
              | Inr changed \<Rightarrow> (tp_fetchTables srv st1)\<lparr>tp_selectedTable := None\<rparr>))"

definition tp_newRequests :: "tables_page \<Rightarrow> tables_page \<Rightarrow> api_request list" where
  "tp_newRequests st st' = drop (length (tp_requests st)) (tp_requests st')"

subsection \<open>What the table handlers do with the answer\<close>

text \<open>The list the page holds once \<open>fetchTables\<close> has its answer.\<close>

definition fetchedList :: "server \<Rightarrow> restaurant_table list \<Rightarrow> restaurant_table list" where
  "fetchedList srv held =
     (case srv_getAllTables srv of Inr (Some res) \<Rightarrow> res | Inr None \<Rightarrow> [] | Inl e \<Rightarrow> held)"

lemma tp_fetchTables_fields [simp]:
  "tp_requests (tp_fetchTables srv st) = tp_requests st @ [GetAllTables]"
  "tp_tables (tp_fetchTables srv st) = fetchedList srv (tp_tables st)"
  "tp_activeSession (tp_fetchTables srv st) = tp_activeSession st"
  "tp_selectedTable (tp_fetchTables srv st) = tp_selectedTable st"
  by (simp_all add: tp_fetchTables_def tp_issue_def tp_toast_def fetchedList_def Let_def
      split: sum.splits option.splits)

lemma tp_issue_fields [simp]:
  "tp_requests (tp_issue r st) = tp_requests st @ [r]"
  "tp_tables (tp_issue r st) = tp_tables st"
  "tp_activeSession (tp_issue r st) = tp_activeSession st"
  "tp_selectedTable (tp_issue r st) = tp_selectedTable st"
  by (simp_all add: tp_issue_def)

lemma tp_toast_fields [simp]:
  "tp_requests (tp_toast t st) = tp_requests st"
  "tp_tables (tp_toast t st) = tp_tables st"
  "tp_activeSession (tp_toast t st) = tp_activeSession st"
  "tp_selectedTable (tp_toast t st) = tp_selectedTable st"
  by (simp_all add: tp_toast_def)

lemma addItems_done:
  assumes "tp_selectedTable st = Some sel" and "tp_itemsToAdd st \<noteq> []"
    and "srv_addItems srv (tbl_id sel) (draftItems (tp_itemsToAdd st)) = Inr res"
  shows "tp_activeSession (handleAddItems srv st) = Some res"
    and "tp_newRequests st (handleAddItems srv st) =
           [AddItems (tbl_id sel) (draftItems (tp_itemsToAdd st)), GetAllTables]"
    and "tp_tables (handleAddItems srv st) = fetchedList srv (tp_tables st)"
  using assms by (simp_all add: handleAddItems_def tp_newRequests_def Let_def)

lemma removeItem_done:
  assumes "tp_selectedTable st = Some sel"
    and "srv_removeItem srv (tbl_id sel) detailId = Inr res"
  shows "tp_activeSession (handleRemoveItem srv detailId st) = Some res"
    and "tp_newRequests st (handleRemoveItem srv detailId st) =
           [RemoveItem (tbl_id sel) detailId, GetAllTables]"
    and "tp_tables (handleRemoveItem srv detailId st) = fetchedList srv (tp_tables st)"
  using assms by (simp_all add: handleRemoveItem_def tp_newRequests_def Let_def)

definition payBody :: "tables_page \<Rightarrow> pay_table_request" where
  "payBody st = \<lparr>ptr_paymentMethod = tp_paymentMethod st, ptr_amountReceived = tp_amountReceived st,
                 ptr_discountPercent = None, ptr_notes = None\<rparr>"

lemma payTable_done:
  assumes "tp_selectedTable st = Some sel" and "tp_activeSession st = Some current"
    and "srv_payTable srv (tbl_id sel) (payBody st) = Inr paid"
  shows "tp_activeSession (handlePayTable srv st) = None"
    and "tp_selectedTable (handlePayTable srv st) = None"
    and "tp_newRequests st (handlePayTable srv st) = [PayTable (tbl_id sel) (payBody st), GetAllTables]"
    and "tp_tables (handlePayTable srv st) = fetchedList srv (tp_tables st)"
  using assms by (simp_all add: handlePayTable_def tp_newRequests_def payBody_def Let_def)

definition openBody :: "tables_page \<Rightarrow> open_table_request" where
  "openBody st = \<lparr>otr_guestCount = tp_guestCount st,
                  otr_notes = (if tp_tableNotes st = [] then None else Some (tp_tableNotes st)),
                  otr_customerId = None\<rparr>"

lemma openTable_done:
  assumes "tp_selectedTable st = Some sel"
    and "srv_openTable srv (tbl_id sel) (openBody st) = Inr res"
  shows "tp_activeSession (handleOpenTable srv st) = Some res"
    and "tp_newRequests st (handleOpenTable srv st) =
           [OpenTable (tbl_id sel) (openBody st), GetAllTables, GetTableById (tbl_id sel)]"
    and "tp_tables (handleOpenTable srv st) = fetchedList srv (tp_tables st)"
  using assms
  by (simp_all add: handleOpenTable_def tp_newRequests_def openBody_def Let_def split: sum.splits)

definition createBody :: "tables_page \<Rightarrow> create_table_request" where
  "createBody st =
     \<lparr>ctr_tableNumber = (case tp_newTableNumber st of IntText n \<Rightarrow> Some n | _ \<Rightarrow> None),
      ctr_name = (if tp_newTableName st = [] then None else Some (tp_newTableName st)),
      ctr_capacity = parsedOr (tp_newTableCapacity st) 4,
      ctr_zone = tp_newTableZone st\<rparr>"

lemma createTable_done:
  assumes "tp_newTableNumber st \<noteq> Blank"
    and "srv_createTable srv (createBody st) = Inr created"
  shows "tp_newRequests st (handleCreateTable srv st) = [CreateTable (createBody st), GetAllTables]"
    and "tp_tables (handleCreateTable srv st) = fetchedList srv (tp_tables st)"
  using assms by (simp_all add: handleCreateTable_def tp_newRequests_def createBody_def Let_def)

lemma markAvailable_done:
  assumes "tp_selectedTable st = Some sel"
    and "srv_changeStatus srv (tbl_id sel) DISPONIBLE = Inr changed"
  shows "tp_newRequests st (markAvailable srv st) = [ChangeStatus (tbl_id sel) DISPONIBLE, GetAllTables]"
    and "tp_tables (markAvailable srv st) = fetchedList srv (tp_tables st)"
  using assms by (simp_all add: markAvailable_def tp_newRequests_def Let_def)

text \<open>
  C7, as the code has it. After a successful add-items or remove-item call the session the
  call returned is the held \<open>activeSession\<close>, whatever was held before. After a successful
  pay call the object returned is dropped, and the held session and the selected table are
  both cleared. After each successful state-changing table call (open, add items, remove
  item, pay, create, change of status) the whole table list is requested, and the list held
  afterwards is the list of that answer.
\<close>

theorem table_handlers_replace_and_refetch:
  "(tp_selectedTable st = Some sel \<and> tp_itemsToAdd st \<noteq> [] \<and>
    srv_addItems srv (tbl_id sel) (draftItems (tp_itemsToAdd st)) = Inr res \<longrightarrow>
      tp_activeSession (handleAddItems srv st) = Some res \<and>
      tp_newRequests st (handleAddItems srv st) =
        [AddItems (tbl_id sel) (draftItems (tp_itemsToAdd st)), GetAllTables] \<and>
      tp_tables (handleAddItems srv st) = fetchedList srv (tp_tables st)) \<and>
   (tp_selectedTable st = Some sel \<and> srv_removeItem srv (tbl_id sel) detailId = Inr res \<longrightarrow>
      tp_activeSession (handleRemoveItem srv detailId st) = Some res \<and>
      tp_newRequests st (handleRemoveItem srv detailId st) =
        [RemoveItem (tbl_id sel) detailId, GetAllTables] \<and>
      tp_tables (handleRemoveItem srv detailId st) = fetchedList srv (tp_tables st)) \<and>
   (tp_selectedTable st = Some sel \<and> tp_activeSession st = Some current \<and>
    srv_payTable srv (tbl_id sel) (payBody st) = Inr paid \<longrightarrow>
      tp_activeSession (handlePayTable srv st) = None \<and>
      tp_selectedTable (handlePayTable srv st) = None \<and>
      tp_newRequests st (handlePayTable srv st) =
        [PayTable (tbl_id sel) (payBody st), GetAllTables] \<and>
      tp_tables (handlePayTable srv st) = fetchedList srv (tp_tables st)) \<and>
   (tp_selectedTable st = Some sel \<and> srv_openTable srv (tbl_id sel) (openBody st) = Inr res \<longrightarrow>
      tp_activeSession (handleOpenTable srv st) = Some res \<and>
      tp_newRequests st (handleOpenTable srv st) =
        [OpenTable (tbl_id sel) (openBody st), GetAllTables, GetTableById (tbl_id sel)] \<and>
      tp_tables (handleOpenTable srv st) = fetchedList srv (tp_tables st)) \<and>
   (tp_newTableNumber st \<noteq> Blank \<and> srv_createTable srv (createBody st) = Inr created \<longrightarrow>
      tp_newRequests st (handleCreateTable srv st) = [CreateTable (createBody st), GetAllTables] \<and>
      tp_tables (handleCreateTable srv st) = fetchedList srv (tp_tables st)) \<and>
   (tp_selectedTable st = Some sel \<and> srv_changeStatus srv (tbl_id sel) DISPONIBLE = Inr changed \<longrightarrow>
      tp_newRequests st (markAvailable srv st) =
        [ChangeStatus (tbl_id sel) DISPONIBLE, GetAllTables] \<and>
      tp_tables (markAvailable srv st) = fetchedList srv (tp_tables st)) \<and>
   (srv_getAllTables srv = Inr (Some fetched) \<longrightarrow> fetchedList srv held = fetched)"
proof -
  have add: "tp_selectedTable st = Some sel \<and> tp_itemsToAdd st \<noteq> [] \<and>
    srv_addItems srv (tbl_id sel) (draftItems (tp_itemsToAdd st)) = Inr res \<longrightarrow>
      tp_activeSession (handleAddItems srv st) = Some res \<and>
      tp_newRequests st (handleAddItems srv st) =
        [AddItems (tbl_id sel) (draftItems (tp_itemsToAdd st)), GetAllTables] \<and>
      tp_tables (handleAddItems srv st) = fetchedList srv (tp_tables st)"
    using addItems_done [of st sel srv res] by blast
  have remove: "tp_selectedTable st = Some sel \<and> srv_removeItem srv (tbl_id sel) detailId = Inr res \<longrightarrow>
      tp_activeSession (handleRemoveItem srv detailId st) = Some res \<and>
      tp_newRequests st (handleRemoveItem srv detailId st) =
        [RemoveItem (tbl_id sel) detailId, GetAllTables] \<and>
      tp_tables (handleRemoveItem srv detailId st) = fetchedList srv (tp_tables st)"
    using removeItem_done [of st sel srv detailId res] by blast
  have pay: "tp_selectedTable st = Some sel \<and> tp_activeSession st = Some current \<and>
    srv_payTable srv (tbl_id sel) (payBody st) = Inr paid \<longrightarrow>
      tp_activeSession (handlePayTable srv st) = None \<and>
      tp_selectedTable (handlePayTable srv st) = None \<and>
      tp_newRequests st (handlePayTable srv st) =
        [PayTable (tbl_id sel) (payBody st), GetAllTables] \<and>
      tp_tables (handlePayTable srv st) = fetchedList srv (tp_tables st)"
    using payTable_done [of st sel current srv paid] by blast
  have "open": "tp_selectedTable st = Some sel \<and> srv_openTable srv (tbl_id sel) (openBody st) = Inr res \<longrightarrow>
      tp_activeSession (handleOpenTable srv st) = Some res \<and>
      tp_newRequests st (handleOpenTable srv st) =
        [OpenTable (tbl_id sel) (openBody st), GetAllTables, GetTableById (tbl_id sel)] \<and>
      tp_tables (handleOpenTable srv st) = fetchedList srv (tp_tables st)"
    using openTable_done [of st sel srv res] by blast
  have create: "tp_newTableNumber st \<noteq> Blank \<and> srv_createTable srv (createBody st) = Inr created \<longrightarrow>
      tp_newRequests st (handleCreateTable srv st) = [CreateTable (createBody st), GetAllTables] \<and>
      tp_tables (handleCreateTable srv st) = fetchedList srv (tp_tables st)"
    using createTable_done [of st srv created] by blast
  have mark: "tp_selectedTable st = Some sel \<and> srv_changeStatus srv (tbl_id sel) DISPONIBLE = Inr changed \<longrightarrow>
      tp_newRequests st (markAvailable srv st) =
        [ChangeStatus (tbl_id sel) DISPONIBLE, GetAllTables] \<and>
      tp_tables (markAvailable srv st) = fetchedList srv (tp_tables st)"
    using markAvailable_done [of st sel srv changed] by blast
  have fetched: "srv_getAllTables srv = Inr (Some fetched) \<longrightarrow> fetchedList srv held = fetched"
    by (simp add: fetchedList_def)
  show ?thesis
    by (intro conjI add remove pay "open" create mark fetched)
qed

text \<open>
  Table 5 is occupied and selected, its session (one line) is held, and one coffee is in the
  draft. The server answers the table calls with a fresh session, the payment
  with the invoice 77, and the list request with both tables.
\<close>

definition held_session :: table_session where
  "held_session =
     \<lparr>ts_tableId = 5, ts_invoiceId = 76, ts_guestCount = 2,
      ts_lines = [\<lparr>sl_id = 900, sl_productId = 7, sl_quantity = 1, sl_unitPrice = 4000\<rparr>],
      ts_subtotal = 4000, ts_total = 4000\<rparr>"

definition tables_demo :: tables_page where
  "tables_demo =
     \<lparr>tp_tables = [], tp_selectedTable = Some table_5, tp_activeSession = Some held_session,
      tp_showOpenModal = False, tp_showAddItemsModal = True, tp_showPayModal = True,
      tp_showCreateTableModal = False, tp_guestCount = 1, tp_tableNotes = [],
      tp_searchTerm = [], tp_itemsToAdd = one_coffee, tp_paymentMethod = EFECTIVO,
      tp_amountReceived = Num 4000, tp_processing = False, tp_newTableNumber = IntText 9,
      tp_newTableName = [], tp_newTableCapacity = IntText 4, tp_newTableZone = ''INTERIOR'',
      tp_toasts = [], tp_requests = []\<rparr>"

lemma tables_demo_fields [simp]:
  "tp_selectedTable tables_demo = Some table_5"
  "tp_activeSession tables_demo = Some held_session"
  "tp_itemsToAdd tables_demo = one_coffee"
  "tp_requests tables_demo = []"
  "tp_tables tables_demo = []"
  "tp_newTableNumber tables_demo = IntText 9"
  by (simp_all add: tables_demo_def)

lemma accepting_table_fields [simp]:
  "srv_removeItem accepting tid d = Inr (demo_session tid)"
  "srv_changeStatus accepting tid s = Inr table_4"
  "srv_createTable accepting cb = Inr table_4"
  "srv_getAllTables accepting = Inr (Some demo_tables)"
  "srv_getTableById accepting tid = Inr table_4"
  by (simp_all add: accepting_def)

theorem table_handlers_replace_and_refetch_witness:
  "tp_activeSession (handleAddItems accepting tables_demo) = Some (demo_session 5) \<and>
   tp_activeSession (handleRemoveItem accepting 900 tables_demo) = Some (demo_session 5) \<and>
   tp_activeSession (handlePayTable accepting tables_demo) = None \<and>
   tp_activeSession (handleOpenTable accepting tables_demo) = Some (demo_session 5) \<and>
   tp_tables (handleAddItems accepting tables_demo) = demo_tables \<and>
   tp_tables (handleRemoveItem accepting 900 tables_demo) = demo_tables \<and>
   tp_tables (handlePayTable accepting tables_demo) = demo_tables \<and>
   tp_tables (handleOpenTable accepting tables_demo) = demo_tables \<and>
   tp_tables (handleCreateTable accepting tables_demo) = demo_tables \<and>
   tp_tables (markAvailable accepting tables_demo) = demo_tables"
proof -
  have nonempty: "one_coffee \<noteq> []"
    by (simp add: one_coffee_def)
  have id5: "tbl_id table_5 = 5"
    by (simp add: table_5_def)
  from table_handlers_replace_and_refetch
         [where st = tables_demo and srv = accepting and sel = table_5 and res = "demo_session 5"
            and detailId = 900 and current = held_session and paid = "demo_invoice 77"
            and created = table_4 and changed = table_4 and fetched = demo_tables and held = "[]"]
       nonempty id5
  show ?thesis
    by simp
qed

text \<open>
  The claim as the spec words it has the object returned by the pay call replace the held
  session. The pay call above succeeds (the toast says so), and the page then holds no
  session and no selected table.
\<close>

theorem pay_clears_session_counterexample:
  "tp_toasts (handlePayTable accepting tables_demo) = [ToastTablePaid 2] \<and>
   tp_requests (handlePayTable accepting tables_demo) =
     [PayTable 5 \<lparr>ptr_paymentMethod = EFECTIVO, ptr_amountReceived = Num 4000,
                  ptr_discountPercent = None, ptr_notes = None\<rparr>, GetAllTables] \<and>
   tp_activeSession (handlePayTable accepting tables_demo) = None \<and>
   tp_selectedTable (handlePayTable accepting tables_demo) = None"
  by (simp add: handlePayTable_def tp_toast_def tp_issue_def tp_fetchTables_def Let_def
      tables_demo_def table_5_def accepting_def)

section \<open>useSseEvents: the event-stream subscription\<close>

text \<open>
  The hook's refs, the browser's event sources and timers, and the clock in milliseconds.
  An \<open>EventSource\<close> is known by the number under which it was created; its URL is
  \<open>/api/sse/events?token=\<close> followed by the encoded token, of which the token is kept. The
  callbacks of the options are opaque: the state logs each call of one, with its argument.
  \<open>'j\<close> is the type of parsed JSON values, and \<open>JSON.parse\<close> is a parameter of the model
  (\<open>None\<close> when it throws).
\<close>

datatype sse_event = Connected | NewOrder | KitchenUpdate | OrderPaid | Unnamed

datatype 'j handler_call =
    OnConnected
  | OnNewOrder 'j
  | OnKitchenUpdate 'j
  | OnOrderPaid 'j

record 'j sse =
  sse_enabled :: bool
  sse_onConnected :: bool
  sse_onNewOrder :: bool
  sse_onKitchenUpdate :: bool
  sse_onOrderPaid :: bool
  sse_accessToken :: "string option"
  sse_now :: nat
  sse_created :: "(nat \<times> string) list"
  sse_closed :: "nat list"
  sse_timers :: "(nat \<times> nat) list"
  sse_nextSource :: nat
  sse_nextTimer :: nat
  sse_eventSourceRef :: "nat option"
  sse_reconnectTimeoutRef :: "nat option"
  sse_calls :: "'j handler_call list"

text \<open>
  \<open>connect\<close>: nothing when the hook is disabled or no token is stored (an empty token is
  falsy); otherwise a new source is created and held in the ref.
\<close>

definition connect :: "'j sse \<Rightarrow> 'j sse" where
  "connect st =
     (if \<not> sse_enabled st then st
      else case sse_accessToken st of
             None \<Rightarrow> st
           | Some token \<Rightarrow>
               if token = [] then st
               else st\<lparr>sse_created := sse_created st @ [(sse_nextSource st, token)],
                       sse_eventSourceRef := Some (sse_nextSource st),
                       sse_nextSource := Suc (sse_nextSource st)\<rparr>)"

text \<open>A source delivers events while it has been created and not closed.\<close>

definition isOpen :: "'j sse \<Rightarrow> nat \<Rightarrow> bool" where
  "isOpen st es = (es \<in> set (map fst (sse_created st)) \<and> es \<notin> set (sse_closed st))"

definition call :: "bool \<Rightarrow> 'j handler_call \<Rightarrow> 'j sse \<Rightarrow> 'j sse" where
  "call present c st = (if present then st\<lparr>sse_calls := sse_calls st @ [c]\<rparr> else st)"

text \<open>
  The four listeners. \<open>connected\<close> calls \<open>onConnected?.()\<close> and does not look at the data;
  the other three parse the data and pass the value on, and ignore a data that does not
  parse. An event of another name has no listener.
\<close>

definition onEvent :: "(string \<Rightarrow> 'j option) \<Rightarrow> nat \<Rightarrow> sse_event \<Rightarrow> string \<Rightarrow> 'j sse \<Rightarrow> 'j sse" where
  "onEvent parse es name payload st =
     (if \<not> isOpen st es then st
      else case name of
             Connected \<Rightarrow> call (sse_onConnected st) OnConnected st
           | NewOrder \<Rightarrow>
               (case parse payload of
                  None \<Rightarrow> st
                | Some v \<Rightarrow> call (sse_onNewOrder st) (OnNewOrder v) st)
           | KitchenUpdate \<Rightarrow>
               (case parse payload of
                  None \<Rightarrow> st
                | Some v \<Rightarrow> call (sse_onKitchenUpdate st) (OnKitchenUpdate v) st)
           | OrderPaid \<Rightarrow>
               (case parse payload of
                  None \<Rightarrow> st
                | Some v \<Rightarrow> call (sse_onOrderPaid st) (OnOrderPaid v) st)
           | Unnamed \<Rightarrow> st)"

text \<open>
  \<open>es.onerror\<close>: the source is closed, the ref is cleared, and a timer that calls \<open>connect\<close>
  is set to 5000 milliseconds from now and held in the timeout ref.
\<close>

definition onError :: "nat \<Rightarrow> 'j sse \<Rightarrow> 'j sse" where
  "onError es st =
     (if \<not> isOpen st es then st
      else st\<lparr>sse_closed := sse_closed st @ [es],
              sse_eventSourceRef := None,
              sse_timers := sse_timers st @ [(sse_nextTimer st, sse_now st + 5000)],
              sse_reconnectTimeoutRef := Some (sse_nextTimer st),
              sse_nextTimer := Suc (sse_nextTimer st)\<rparr>)"

text \<open>Time passes: the clock advances and each timer that has come due calls \<open>connect\<close>.\<close>

definition elapse :: "nat \<Rightarrow> 'j sse \<Rightarrow> 'j sse" where
  "elapse ms st =
     (let due = filter (\<lambda>t. snd t \<le> sse_now st + ms) (sse_timers st);
          waiting = filter (\<lambda>t. \<not> snd t \<le> sse_now st + ms) (sse_timers st)
      in fold (\<lambda>t s. connect s) due (st\<lparr>sse_now := sse_now st + ms, sse_timers := waiting\<rparr>))"

text \<open>The effect's cleanup: the held source is closed and the held timer is cleared.\<close>

definition cleanup :: "'j sse \<Rightarrow> 'j sse" where
  "cleanup st =
     (let st1 = (case sse_eventSourceRef st of
                   None \<Rightarrow> st
                 | Some es \<Rightarrow> st\<lparr>sse_closed := sse_closed st @ [es]\<rparr>)
      in case sse_reconnectTimeoutRef st of
           None \<Rightarrow> st1\<lparr>sse_eventSourceRef := None\<rparr>
         | Some t \<Rightarrow> st1\<lparr>sse_eventSourceRef := None,
                        sse_timers := filter (\<lambda>p. fst p \<noteq> t) (sse_timers st)\<rparr>)"

subsection \<open>Facts about the subscription\<close>

lemma onError_state:
  "isOpen st es \<Longrightarrow>
   onError es st =
     st\<lparr>sse_closed := sse_closed st @ [es],
        sse_eventSourceRef := None,
        sse_timers := sse_timers st @ [(sse_nextTimer st, sse_now st + 5000)],
        sse_reconnectTimeoutRef := Some (sse_nextTimer st),
        sse_nextTimer := Suc (sse_nextTimer st)\<rparr>"
  by (simp add: onError_def)

lemma elapse_before:
  assumes "isOpen st es" and "sse_timers st = []" and "ms < 5000"
  shows "elapse ms (onError es st) = (onError es st)\<lparr>sse_now := sse_now st + ms\<rparr>"
  using assms by (simp add: onError_state elapse_def)

lemma error_then_wait:
  assumes "isOpen st es" and "sse_timers st = []"
  shows "es \<in> set (sse_closed (onError es st))"
    and "sse_eventSourceRef (onError es st) = None"
    and "sse_timers (onError es st) = [(sse_nextTimer st, sse_now st + 5000)]"
    and "sse_reconnectTimeoutRef (onError es st) = Some (sse_nextTimer st)"
    and "\<forall>ms<5000. sse_created (elapse ms (onError es st)) = sse_created st \<and>
                    sse_eventSourceRef (elapse ms (onError es st)) = None"
  using assms by (simp_all add: elapse_before) (simp_all add: onError_state)

lemma error_then_reconnect:
  assumes "isOpen st es" and "sse_timers st = []"
    and "sse_enabled st" and "sse_accessToken st = Some token" and "token \<noteq> []"
  shows "sse_created (elapse 5000 (onError es st)) = sse_created st @ [(sse_nextSource st, token)]"
    and "sse_eventSourceRef (elapse 5000 (onError es st)) = Some (sse_nextSource st)"
  using assms by (simp_all add: onError_def elapse_def connect_def)

lemma error_then_give_up:
  assumes "isOpen st es" and "sse_timers st = []"
    and "\<not> sse_enabled st \<or> sse_accessToken st = None \<or> sse_accessToken st = Some []"
  shows "sse_created (elapse 5000 (onError es st)) = sse_created st"
    and "sse_eventSourceRef (elapse 5000 (onError es st)) = None"
    and "sse_timers (elapse 5000 (onError es st)) = []"
  using assms by (auto simp: onError_def elapse_def connect_def)

lemma listeners:
  assumes "isOpen st es"
  shows "onEvent parse es Connected payload st = call (sse_onConnected st) OnConnected st"
    and "parse payload = Some v \<Longrightarrow>
           onEvent parse es NewOrder payload st = call (sse_onNewOrder st) (OnNewOrder v) st \<and>
           onEvent parse es KitchenUpdate payload st =
             call (sse_onKitchenUpdate st) (OnKitchenUpdate v) st \<and>
           onEvent parse es OrderPaid payload st = call (sse_onOrderPaid st) (OnOrderPaid v) st"
    and "parse payload = None \<Longrightarrow>
           onEvent parse es NewOrder payload st = st \<and>
           onEvent parse es KitchenUpdate payload st = st \<and>
           onEvent parse es OrderPaid payload st = st"
  using assms by (simp_all add: onEvent_def)

text \<open>
  C9, as the code has it. An error on the open source closes it, clears the ref and sets
  one timer to 5000 ms from that moment; until then no source is created. When the timer
  fires, \<open>connect\<close> creates a new source if the hook is enabled and a non-empty access token
  is stored, and otherwise creates none and sets no further timer. Of the four named events,
  \<open>new_order\<close>, \<open>kitchen_update\<close> and \<open>order_paid\<close> have their data parsed as JSON and passed
  to their handler, and are dropped when the data does not parse; \<open>connected\<close> calls its
  handler without reading the data.
\<close>

theorem sse_reconnect_and_listeners:
  "(isOpen st es \<and> sse_timers st = [] \<longrightarrow>
      es \<in> set (sse_closed (onError es st)) \<and>
      sse_eventSourceRef (onError es st) = None \<and>
      sse_timers (onError es st) = [(sse_nextTimer st, sse_now st + 5000)] \<and>
      sse_reconnectTimeoutRef (onError es st) = Some (sse_nextTimer st) \<and>
      (\<forall>ms<5000. sse_created (elapse ms (onError es st)) = sse_created st \<and>
                  sse_eventSourceRef (elapse ms (onError es st)) = None)) \<and>
   (isOpen st es \<and> sse_timers st = [] \<and>
    sse_enabled st \<and> sse_accessToken st = Some token \<and> token \<noteq> [] \<longrightarrow>
      sse_created (elapse 5000 (onError es st)) = sse_created st @ [(sse_nextSource st, token)] \<and>
      sse_eventSourceRef (elapse 5000 (onError es st)) = Some (sse_nextSource st)) \<and>
   (isOpen st es \<and> sse_timers st = [] \<and>
    (\<not> sse_enabled st \<or> sse_accessToken st = None \<or> sse_accessToken st = Some []) \<longrightarrow>
      sse_created (elapse 5000 (onError es st)) = sse_created st \<and>
      sse_eventSourceRef (elapse 5000 (onError es st)) = None \<and>
      sse_timers (elapse 5000 (onError es st)) = []) \<and>
   (isOpen st es \<longrightarrow>
      onEvent parse es Connected payload st = call (sse_onConnected st) OnConnected st) \<and>
   (isOpen st es \<and> parse payload = Some v \<longrightarrow>
      onEvent parse es NewOrder payload st = call (sse_onNewOrder st) (OnNewOrder v) st \<and>
      onEvent parse es KitchenUpdate payload st =
        call (sse_onKitchenUpdate st) (OnKitchenUpdate v) st \<and>
      onEvent parse es OrderPaid payload st = call (sse_onOrderPaid st) (OnOrderPaid v) st) \<and>
   (isOpen st es \<and> parse payload = None \<longrightarrow>
      onEvent parse es NewOrder payload st = st \<and>
      onEvent parse es KitchenUpdate payload st = st \<and>
      onEvent parse es OrderPaid payload st = st)"
proof -
  have wait: "isOpen st es \<and> sse_timers st = [] \<longrightarrow>
      es \<in> set (sse_closed (onError es st)) \<and>
      sse_eventSourceRef (onError es st) = None \<and>
      sse_timers (onError es st) = [(sse_nextTimer st, sse_now st + 5000)] \<and>
      sse_reconnectTimeoutRef (onError es st) = Some (sse_nextTimer st) \<and>
      (\<forall>ms<5000. sse_created (elapse ms (onError es st)) = sse_created st \<and>
                  sse_eventSourceRef (elapse ms (onError es st)) = None)"
    using error_then_wait [of st es] by blast
  have again: "isOpen st es \<and> sse_timers st = [] \<and>
    sse_enabled st \<and> sse_accessToken st = Some token \<and> token \<noteq> [] \<longrightarrow>
      sse_created (elapse 5000 (onError es st)) = sse_created st @ [(sse_nextSource st, token)] \<and>
      sse_eventSourceRef (elapse 5000 (onError es st)) = Some (sse_nextSource st)"
    using error_then_reconnect [of st es token] by blast
  have stop: "isOpen st es \<and> sse_timers st = [] \<and>
    (\<not> sse_enabled st \<or> sse_accessToken st = None \<or> sse_accessToken st = Some []) \<longrightarrow>
      sse_created (elapse 5000 (onError es st)) = sse_created st \<and>
      sse_eventSourceRef (elapse 5000 (onError es st)) = None \<and>
      sse_timers (elapse 5000 (onError es st)) = []"
    using error_then_give_up [of st es] by blast
  have hello: "isOpen st es \<longrightarrow>
      onEvent parse es Connected payload st = call (sse_onConnected st) OnConnected st"
    using listeners(1) [of st es parse payload] by blast
  have parsed: "isOpen st es \<and> parse payload = Some v \<longrightarrow>
      onEvent parse es NewOrder payload st = call (sse_onNewOrder st) (OnNewOrder v) st \<and>
      onEvent parse es KitchenUpdate payload st =
        call (sse_onKitchenUpdate st) (OnKitchenUpdate v) st \<and>
      onEvent parse es OrderPaid payload st = call (sse_onOrderPaid st) (OnOrderPaid v) st"
    using listeners(2) [of st es parse payload v] by blast
  have dropped: "isOpen st es \<and> parse payload = None \<longrightarrow>
      onEvent parse es NewOrder payload st = st \<and>
      onEvent parse es KitchenUpdate payload st = st \<and>
      onEvent parse es OrderPaid payload st = st"
    using listeners(3) [of st es parse payload] by blast
  show ?thesis
    by (intro conjI wait again stop hello parsed dropped)
qed

text \<open>
  A kitchen screen, enabled, with all four handlers and the token \<open>tok\<close>; its source 0 is
  open and the clock shows 1000. Parsed values are the numbers of digits-only payloads'
  lengths, which is enough to tell a payload that parses from one that does not.
\<close>

definition kitchen :: "nat sse" where
  "kitchen =
     \<lparr>sse_enabled = True, sse_onConnected = True, sse_onNewOrder = True,
      sse_onKitchenUpdate = True, sse_onOrderPaid = True, sse_accessToken = Some ''tok'',
      sse_now = 1000, sse_created = [(0, ''tok'')], sse_closed = [], sse_timers = [],
      sse_nextSource = 1, sse_nextTimer = 1, sse_eventSourceRef = Some 0,
      sse_reconnectTimeoutRef = None, sse_calls = []\<rparr>"

definition toyParse :: "string \<Rightarrow> nat option" where
  "toyParse s = (if s \<noteq> [] \<and> list_all (\<lambda>c. c \<in> set ''0123456789'') s then Some (length s) else None)"

lemma kitchen_open: "isOpen kitchen 0"
  by (simp add: isOpen_def kitchen_def)

theorem sse_reconnect_and_listeners_witness:
  "isOpen kitchen 0 \<and> sse_timers kitchen = [] \<and>
   sse_timers (onError 0 kitchen) = [(1, 6000)] \<and>
   sse_created (elapse 4999 (onError 0 kitchen)) = [(0, ''tok'')] \<and>
   sse_created (elapse 5000 (onError 0 kitchen)) = [(0, ''tok''), (1, ''tok'')] \<and>
   sse_eventSourceRef (elapse 5000 (onError 0 kitchen)) = Some 1 \<and>
   sse_calls (onEvent toyParse 0 NewOrder ''42'' kitchen) = [OnNewOrder 2] \<and>
   sse_calls (onEvent toyParse 0 NewOrder ''{'' kitchen) = []"
proof -
  have facts: "sse_timers kitchen = []" "sse_enabled kitchen" "sse_accessToken kitchen = Some ''tok''"
    "sse_nextTimer kitchen = 1" "sse_now kitchen = 1000" "sse_created kitchen = [(0, ''tok'')]"
    "sse_nextSource kitchen = 1" "sse_onNewOrder kitchen" "sse_calls kitchen = []"
    by (simp_all add: kitchen_def)
  have p: "toyParse ''42'' = Some 2" "toyParse ''{'' = None"
    by (simp_all add: toyParse_def)
  from sse_reconnect_and_listeners
         [where st = kitchen and es = 0 and token = "''tok''" and parse = toyParse
            and payload = "''42''" and v = 2]
       kitchen_open facts p(1)
  have a: "sse_timers (onError 0 kitchen) = [(1, 6000)] \<and>
     sse_created (elapse 4999 (onError 0 kitchen)) = [(0, ''tok'')] \<and>
     sse_created (elapse 5000 (onError 0 kitchen)) = [(0, ''tok''), (1, ''tok'')] \<and>
     sse_eventSourceRef (elapse 5000 (onError 0 kitchen)) = Some 1 \<and>
     sse_calls (onEvent toyParse 0 NewOrder ''42'' kitchen) = [OnNewOrder 2]"
    by (simp add: call_def)
  from sse_reconnect_and_listeners
         [where st = kitchen and es = 0 and parse = toyParse and payload = "''{''"]
       kitchen_open facts p(2)
  have b: "sse_calls (onEvent toyParse 0 NewOrder ''{'' kitchen) = []"
    by simp
  from kitchen_open facts(1) a b show ?thesis
    by blast
qed

text \<open>
  The claim as the spec words it has each of the four events parsed as JSON, and the client
  reconnect after any error. A \<open>connected\<close> event whose data does not parse still reaches
  its handler, where a \<open>new_order\<close> with the same data is dropped; and when the token has
  been removed by the time the timer fires, no source is created and no timer is left.
\<close>

theorem connected_not_parsed_counterexample:
  "toyParse ''{'' = None \<and>
   sse_calls (onEvent toyParse 0 Connected ''{'' kitchen) = [OnConnected] \<and>
   sse_calls (onEvent toyParse 0 NewOrder ''{'' kitchen) = [] \<and>
   sse_created (elapse 5000 ((onError 0 kitchen)\<lparr>sse_accessToken := None\<rparr>)) = [(0, ''tok'')] \<and>
   sse_eventSourceRef (elapse 5000 ((onError 0 kitchen)\<lparr>sse_accessToken := None\<rparr>)) = None \<and>
   sse_timers (elapse 5000 ((onError 0 kitchen)\<lparr>sse_accessToken := None\<rparr>)) = []"
  by (simp add: toyParse_def onEvent_def call_def isOpen_def kitchen_def onError_def
      elapse_def connect_def)

end
